theory Spec2Isabelle
  imports Main
begin

section \<open>Text primitives of the host language\<close>

text \<open>
  Text is a list of 8-bit code units. The white space of \<^verbatim>\<open>trim\<close>, of
  \<^verbatim>\<open>parseInt\<close> and of the regular expression class \<^verbatim>\<open>\s\<close> is the same
  set: TAB, LF, VT, FF, CR, SPACE and NBSP are its members below 256. The class
  \<^verbatim>\<open>.\<close> excludes the line terminators LF and CR.
\<close>

definition LF :: char where
  "LF = CHR 0x0A"

definition CR :: char where
  "CR = CHR 0x0D"

definition is_space :: "char \<Rightarrow> bool" where
  "is_space c = (c \<in> set [CHR 0x09, CHR 0x0A, CHR 0x0B, CHR 0x0C, CHR 0x0D, CHR 0x20, CHR 0xA0])"

definition is_digit :: "char \<Rightarrow> bool" where
  "is_digit c = (c \<in> set ''0123456789'')"

definition is_word :: "char \<Rightarrow> bool" where
  "is_word c = (c \<in> set ''ABCDEFGHIJKLMNOPQRSTUVWXYZabcdefghijklmnopqrstuvwxyz0123456789_'')"

definition is_line_terminator :: "char \<Rightarrow> bool" where
  "is_line_terminator c = (c = CHR 0x0A \<or> c = CHR 0x0D)"

text \<open>\<^verbatim>\<open>s.split(c)\<close> for a one-character separator: never an empty list.\<close>

fun split_on :: "char \<Rightarrow> string \<Rightarrow> string list" where
  "split_on c [] = [[]]"
| "split_on c (x # xs) =
     (if x = c then [] # split_on c xs
      else (case split_on c xs of [] \<Rightarrow> [[x]] | l # ls \<Rightarrow> (x # l) # ls))"

definition trim :: "string \<Rightarrow> string" where
  "trim s = rev (dropWhile is_space (rev (dropWhile is_space s)))"

definition startsWith :: "string \<Rightarrow> string \<Rightarrow> bool" where
  "startsWith s p = (take (length p) s = p)"

text \<open>\<^verbatim>\<open>s.includes(p)\<close> on strings: \<open>p\<close> occurs somewhere in \<open>s\<close>.\<close>

fun includes_str :: "string \<Rightarrow> string \<Rightarrow> bool" where
  "includes_str [] p = (p = [])"
| "includes_str (x # xs) p = (startsWith (x # xs) p \<or> includes_str xs p)"

text \<open>
  \<^verbatim>\<open>toUpperCase\<close>, on the letters a to z. The source applies it only to the text
  matched by \<^verbatim>\<open>[\w\-]+\<close>, which holds no other letter.
\<close>

definition upper_char :: "char \<Rightarrow> char" where
  "upper_char c =
     (case map_of (zip ''abcdefghijklmnopqrstuvwxyz'' ''ABCDEFGHIJKLMNOPQRSTUVWXYZ'') c of
        Some u \<Rightarrow> u | None \<Rightarrow> c)"

definition toUpperCase :: "string \<Rightarrow> string" where
  "toUpperCase s = map upper_char s"

subsection \<open>Numbers\<close>

text \<open>
  The numbers that occur are the doubles \<^verbatim>\<open>parseInt\<close> returns: \<open>NaN\<close>, an
  integer, or an infinity. An integer of magnitude \<open>2^53\<close> or more is rounded to 53
  significant bits, to even on a tie, and to an infinity from \<open>2^1024\<close> on. Equality
  of \<open>jsnum\<close> is the comparison of \<^verbatim>\<open>Array.prototype.includes\<close>.
\<close>

datatype jsnum = NaN | Num int | Infinity | NegInfinity

function bit_length :: "int \<Rightarrow> nat" where
  "bit_length i = (if i \<le> 0 then 0 else Suc (bit_length (i div 2)))"
  by pat_completeness auto
termination
  by (relation "measure nat") auto

declare bit_length.simps [simp del]

definition round53 :: "int \<Rightarrow> int option" where
  "round53 m =
     (let e = bit_length m - 53;
          q = m div 2 ^ e;
          r = m mod 2 ^ e;
          h = 2 ^ (e - 1);
          q' = (if h < r \<or> (r = h \<and> odd q) then q + 1 else q);
          v = q' * 2 ^ e
      in if 2 ^ 1024 \<le> v then None else Some v)"

definition to_double :: "int \<Rightarrow> jsnum" where
  "to_double i =
     (if \<bar>i\<bar> < 9007199254740992 then Num i
      else
        (case round53 \<bar>i\<bar> of
           None \<Rightarrow> if i < 0 then NegInfinity else Infinity
         | Some v \<Rightarrow> Num (if i < 0 then - v else v)))"

definition digit_val :: "char \<Rightarrow> int" where
  "digit_val c = (case map_of (zip ''0123456789'' [0, 1, 2, 3, 4, 5, 6, 7, 8, 9]) c of
                    Some d \<Rightarrow> d | None \<Rightarrow> 0)"

definition digits_val :: "string \<Rightarrow> int" where
  "digits_val ds = foldl (\<lambda>acc d. acc * 10 + digit_val d) 0 ds"

text \<open>
  \<^verbatim>\<open>parseInt(s, 10)\<close>: leading white space is skipped, one sign is read, then the
  longest run of decimal digits; no digit gives \<open>NaN\<close>.
\<close>

definition parseInt10 :: "string \<Rightarrow> jsnum" where
  "parseInt10 s =
     (let t = dropWhile is_space s;
          neg = (t \<noteq> [] \<and> hd t = CHR ''-'');
          u = (if t \<noteq> [] \<and> (hd t = CHR ''-'' \<or> hd t = CHR ''+'') then tl t else t);
          ds = takeWhile is_digit u
      in if ds = [] then NaN
         else to_double (if neg then - digits_val ds else digits_val ds))"

text \<open>The truth value of a variable that holds \<^verbatim>\<open>null\<close> or a number.\<close>

fun truthy_num :: "jsnum option \<Rightarrow> bool" where
  "truthy_num None = False"
| "truthy_num (Some NaN) = False"
| "truthy_num (Some (Num n)) = (n \<noteq> 0)"
| "truthy_num (Some Infinity) = True"
| "truthy_num (Some NegInfinity) = True"

text \<open>
  Conversion of a number to text, as template literals and \<^verbatim>\<open>+\<close> do it, for
  integers of magnitude below \<open>10^21\<close>, which print as decimal numerals.
\<close>

definition digit_char :: "int \<Rightarrow> char" where
  "digit_char d = ''0123456789'' ! nat (d mod 10)"

function pos_to_string :: "int \<Rightarrow> string" where
  "pos_to_string n = (if n < 10 then [digit_char n] else pos_to_string (n div 10) @ [digit_char n])"
  by pat_completeness auto
termination
  by (relation "measure nat") auto

declare pos_to_string.simps [simp del]

definition int_to_string :: "int \<Rightarrow> string" where
  "int_to_string i = (if i < 0 then CHR ''-'' # pos_to_string (- i) else pos_to_string i)"

fun num_to_string :: "jsnum \<Rightarrow> string" where
  "num_to_string NaN = ''NaN''"
| "num_to_string (Num i) = int_to_string i"
| "num_to_string Infinity = ''Infinity''"
| "num_to_string NegInfinity = ''-Infinity''"

subsection \<open>Regular expressions\<close>

text \<open>
  The four regular expressions of the source are sequences of literal characters, of
  greedy repetitions \<^verbatim>\<open>C+\<close> of a character class and of capturing groups
  \<^verbatim>\<open>(C+)\<close>. The matcher backtracks as the host's does: a repetition tries its longest
  run first and gives characters back one at a time, and an unanchored search tries every
  start position from the left. A successful match returns the captured groups in order.
\<close>

datatype cls = Space | NonSpace | Digit | AnyChar | WordDash

fun in_cls :: "cls \<Rightarrow> char \<Rightarrow> bool" where
  "in_cls Space c = is_space c"
| "in_cls NonSpace c = (\<not> is_space c)"
| "in_cls Digit c = is_digit c"
| "in_cls AnyChar c = (\<not> is_line_terminator c)"
| "in_cls WordDash c = (is_word c \<or> c = CHR ''-'')"

datatype atom = Lit char | Plus cls | Cap cls

fun first_some :: "(nat \<Rightarrow> 'a option) \<Rightarrow> nat \<Rightarrow> 'a option" where
  "first_some f 0 = None"
| "first_some f (Suc n) = (case f (Suc n) of Some r \<Rightarrow> Some r | None \<Rightarrow> first_some f n)"

fun match_here :: "atom list \<Rightarrow> string \<Rightarrow> string list \<Rightarrow> string list option" where
  "match_here [] s caps = Some caps"
| "match_here (Lit c # as) s caps =
     (case s of [] \<Rightarrow> None | x # xs \<Rightarrow> if x = c then match_here as xs caps else None)"
| "match_here (Plus k # as) s caps =
     first_some (\<lambda>n. match_here as (drop n s) caps) (length (takeWhile (in_cls k) s))"
| "match_here (Cap k # as) s caps =
     first_some (\<lambda>n. match_here as (drop n s) (caps @ [take n s])) (length (takeWhile (in_cls k) s))"

fun re_search :: "atom list \<Rightarrow> string \<Rightarrow> string list option" where
  "re_search re [] = match_here re [] []"
| "re_search re (x # xs) =
     (case match_here re (x # xs) [] of Some caps \<Rightarrow> Some caps | None \<Rightarrow> re_search re xs)"

definition lits :: "string \<Rightarrow> atom list" where
  "lits s = map Lit s"

text \<open>\<^verbatim>\<open>/m=audio\s+(\d+)\s+RTP\/\S+\s+(.+)/\<close>\<close>

definition re_m_audio :: "atom list" where
  "re_m_audio = lits ''m=audio'' @ [Plus Space, Cap Digit, Plus Space] @ lits ''RTP/''
                @ [Plus NonSpace, Plus Space, Cap AnyChar]"

text \<open>\<^verbatim>\<open>/m=video\s+(\d+)\s+RTP\/\S+\s+(.+)/\<close>\<close>

definition re_m_video :: "atom list" where
  "re_m_video = lits ''m=video'' @ [Plus Space, Cap Digit, Plus Space] @ lits ''RTP/''
                @ [Plus NonSpace, Plus Space, Cap AnyChar]"

text \<open>\<^verbatim>\<open>/c=IN IP4\s+(\S+)/\<close>\<close>

definition re_c_line :: "atom list" where
  "re_c_line = lits ''c=IN IP4'' @ [Plus Space, Cap NonSpace]"

text \<open>\<^verbatim>\<open>/a=rtpmap:(\d+)\s+([\w\-]+)/\<close>\<close>

definition re_rtpmap :: "atom list" where
  "re_rtpmap = lits ''a=rtpmap:'' @ [Cap Digit, Plus Space, Cap WordDash]"

section \<open>Session descriptions (sip.js)\<close>

record rtp_endpoint =
  destination :: string
  port :: jsnum
  payloadType :: jsnum

record media_offer =
  audio :: "rtp_endpoint option"
  video :: "rtp_endpoint option"

text \<open>The lines of a description: split at LF, each line trimmed.\<close>

definition sdp_lines :: "string \<Rightarrow> string list" where
  "sdp_lines sdp = map trim (split_on LF sdp)"

text \<open>
  The connection address of the audio block: the loopback address unless the first line
  that starts with \<^verbatim>\<open>c=IN IP4\<close> matches the connection expression.
\<close>

definition audio_destination :: "string list \<Rightarrow> string" where
  "audio_destination lines =
     (case find (\<lambda>line. startsWith line ''c=IN IP4'') lines of
        None \<Rightarrow> ''127.0.0.1''
      | Some cLine \<Rightarrow>
          (case re_search re_c_line cLine of
             Some [a] \<Rightarrow> a
           | _ \<Rightarrow> ''127.0.0.1''))"

text \<open>
  The body of the two \<^verbatim>\<open>forEach\<close> loops over the lines: an \<^verbatim>\<open>a=rtpmap:\<close> line
  whose codec name, in upper case, contains \<open>name\<close> and whose payload type is among
  \<open>payloadTypes\<close> overwrites the variable.
\<close>

definition rtpmap_step :: "string \<Rightarrow> jsnum list \<Rightarrow> jsnum option \<Rightarrow> string \<Rightarrow> jsnum option" where
  "rtpmap_step name payloadTypes found line =
     (if startsWith line ''a=rtpmap:'' then
        (case re_search re_rtpmap line of
           Some [p, c] \<Rightarrow>
             (let pt = parseInt10 p; codec = toUpperCase c
              in if includes_str codec name \<and> pt \<in> set payloadTypes then Some pt else found)
         | _ \<Rightarrow> found)
      else found)"

definition find_payload :: "string \<Rightarrow> jsnum list \<Rightarrow> string list \<Rightarrow> jsnum option" where
  "find_payload name payloadTypes lines = foldl (rtpmap_step name payloadTypes) None lines"

definition parse_audio :: "string list \<Rightarrow> rtp_endpoint option" where
  "parse_audio lines =
     (case find (\<lambda>line. startsWith line ''m=audio'') lines of
        None \<Rightarrow> None
      | Some mAudioLine \<Rightarrow>
          (case re_search re_m_audio mAudioLine of
             Some [m1, m2] \<Rightarrow>
               (let port = parseInt10 m1;
                    payloadTypes = map parseInt10 (split_on CHR '' '' m2);
                    destination = audio_destination lines;
                    opusPayloadType = find_payload ''OPUS'' payloadTypes lines
                in (case opusPayloadType of
                      None \<Rightarrow> None
                    | Some pt \<Rightarrow>
                        if truthy_num opusPayloadType
                        then Some \<lparr>destination = destination, port = port, payloadType = pt\<rparr>
                        else None))
           | _ \<Rightarrow> None))"

definition parse_video :: "rtp_endpoint option \<Rightarrow> string list \<Rightarrow> rtp_endpoint option" where
  "parse_video result_audio lines =
     (case find (\<lambda>line. startsWith line ''m=video'') lines of
        None \<Rightarrow> None
      | Some mVideoLine \<Rightarrow>
          (case re_search re_m_video mVideoLine of
             Some [m1, m2] \<Rightarrow>
               (let port = parseInt10 m1;
                    payloadTypes = map parseInt10 (split_on CHR '' '' m2);
                    destination = (case result_audio of Some a \<Rightarrow> destination a
                                   | None \<Rightarrow> ''127.0.0.1'');
                    h264PayloadType = find_payload ''H264'' payloadTypes lines
                in (case h264PayloadType of
                      None \<Rightarrow> None
                    | Some pt \<Rightarrow>
                        if truthy_num h264PayloadType
                        then Some \<lparr>destination = destination, port = port, payloadType = pt\<rparr>
                        else None))
           | _ \<Rightarrow> None))"

text \<open>\<^verbatim>\<open>Sip._parseRemoteSdp\<close>; \<open>None\<close> is the source's \<^verbatim>\<open>null\<close>.\<close>

definition parseRemoteSdp :: "string \<Rightarrow> media_offer option" where
  "parseRemoteSdp sdp =
     (if sdp = [] then None
      else
        (let lines = sdp_lines sdp;
             a = parse_audio lines;
             v = parse_video a lines
         in if a \<noteq> None \<or> v \<noteq> None then Some \<lparr>audio = a, video = v\<rparr> else None))"

text \<open>
  \<^verbatim>\<open>Sip._buildLocalSdp\<close>. The local address and the video port come from the
  environment of the process.
\<close>

record sip_env =
  LOCAL_IP :: string
  LOCAL_VIDEO_PORT :: jsnum

definition join_crlf :: "string list \<Rightarrow> string" where
  "join_crlf ls = concat (map (\<lambda>l. l @ [CR, LF]) (butlast ls)) @ last ls"

definition localSdpLines :: "sip_env \<Rightarrow> int \<Rightarrow> string list" where
  "localSdpLines env sessionId =
       [''v=0'',
        ''o=- '' @ int_to_string sessionId @ '' '' @ int_to_string sessionId @ '' IN IP4 '' @ LOCAL_IP env,
        ''s=-'',
        ''c=IN IP4 '' @ LOCAL_IP env,
        ''t=0 0'',
        ''m=audio 8000 RTP/AVP 96'',
        ''a=rtpmap:96 OPUS/48000/2'',
        ''a=fmtp:96 useinbandfec=1;minptime=10'',
        ''a=ptime:20'',
        ''a=maxptime:150'',
        ''a=sendrecv'',
        ''m=video '' @ num_to_string (LOCAL_VIDEO_PORT env) @ '' RTP/AVP 99'',
        ''a=rtpmap:99 H264/90000'',
        ''a=fmtp:99 packetization-mode=1;profile-level-id=42e01f'',
        ''a=sendonly'']"

definition buildLocalSdp :: "sip_env \<Rightarrow> int \<Rightarrow> string" where
  "buildLocalSdp env sessionId = join_crlf (localSdpLines env sessionId) @ [CR, LF]"

section \<open>The SIP leg (sip.js)\<close>

text \<open>
  Messages carry the header fields the handlers read or write. The challenge of a 401
  response is the parsed \<^verbatim>\<open>www-authenticate\<close> header, \<open>None\<close> when the header is
  absent. A missing \<^verbatim>\<open>content\<close> is the empty text.
\<close>

record sip_request =
  req_method :: string
  req_call_id :: string
  req_cseq :: int
  req_authorization :: "string option"
  req_content :: string

record sip_response =
  rsp_status :: int
  rsp_reason :: string
  rsp_call_id :: string
  rsp_cseq :: int
  rsp_www_authenticate :: "string option"
  rsp_content_type :: "string option"
  rsp_content :: string

text \<open>\<^verbatim>\<open>sipLib.makeResponse(request, status, reason)\<close> of the signalling library.\<close>

definition makeResponse :: "sip_request \<Rightarrow> int \<Rightarrow> string \<Rightarrow> sip_response" where
  "makeResponse rq status reason =
     \<lparr>rsp_status = status, rsp_reason = reason, rsp_call_id = req_call_id rq,
      rsp_cseq = req_cseq rq, rsp_www_authenticate = None, rsp_content_type = None,
      rsp_content = []\<rparr>"

datatype sip_event =
    Ringing
  | InboundCall
  | CallEstablished "media_offer option"
  | CallFailed int string
  | CallEnded

text \<open>
  The continuation given to \<^verbatim>\<open>sipLib.send\<close> with a request: the library calls it
  with every response to that request.
\<close>

datatype auth_callback = CbNoop | CbHandleInviteResponse

datatype callback =
    OnRegisterResponse sip_request
  | OnUnregisterResponse sip_request
  | OnInviteResponse
  | OnAuthResponse auth_callback

datatype sip_effect =
    SendResponse sip_response
  | SendRequest sip_request "callback option"
  | Emit sip_event

record sip_state =
  sipSession :: "sip_response option"
  inviteRequest :: "sip_request option"
  initiatingCall :: bool
  serverRtpInfo :: "media_offer option"
  currentCallId :: "string option"
  registerInterval :: bool
  udp :: bool
  udpVideo :: bool

text \<open>
  The state the constructor leaves. \<open>udp\<close> and \<open>udpVideo\<close> say that the field holds
  its socket: the constructor creates both, and \<^verbatim>\<open>cleanup\<close> closes them and sets
  the fields to \<^verbatim>\<open>null\<close>.
\<close>

definition sip_initial :: sip_state where
  "sip_initial =
     \<lparr>sipSession = None, inviteRequest = None, initiatingCall = False, serverRtpInfo = None,
      currentCallId = None, registerInterval = False, udp = True, udpVideo = True\<rparr>"

text \<open>
  \<^verbatim>\<open>Sip.initiateCall\<close>. \<open>sessionId\<close> is the clock reading \<^verbatim>\<open>Date.now()\<close> and
  \<open>callId\<close> the random call-id.
\<close>

definition sip_initiateCall :: "sip_env \<Rightarrow> int \<Rightarrow> string \<Rightarrow> sip_state \<Rightarrow> sip_state \<times> sip_effect list" where
  "sip_initiateCall env sessionId callId st =
     (if initiatingCall st then (st, [])
      else
        (let invite = \<lparr>req_method = ''INVITE'', req_call_id = callId, req_cseq = 1,
                    req_authorization = None, req_content = buildLocalSdp env sessionId\<rparr>
         in (st\<lparr>initiatingCall := True, inviteRequest := Some invite\<rparr>,
             [SendRequest invite (Some OnInviteResponse)])))"

text \<open>
  \<^verbatim>\<open>Sip._retryWithDigestAuth\<close>: the request is signed, its sequence number is
  incremented and it is sent again. \<open>sign\<close> is \<^verbatim>\<open>digest.signRequest\<close> of the
  signalling library, giving the authorization header for a challenge.
\<close>

definition retryWithDigestAuth ::
  "(string \<Rightarrow> sip_request \<Rightarrow> string) \<Rightarrow> sip_request \<Rightarrow> sip_response \<Rightarrow> auth_callback
   \<Rightarrow> sip_request \<times> sip_effect list" where
  "retryWithDigestAuth sign rq rsp cb =
     (let signed = rq\<lparr>req_authorization :=
                        (case rsp_www_authenticate rsp of
                           Some ch \<Rightarrow> Some (sign ch rq)
                         | None \<Rightarrow> req_authorization rq)\<rparr>;
          again = signed\<lparr>req_cseq := req_cseq signed + 1\<rparr>
      in (again, [SendRequest again (Some (OnAuthResponse cb))]))"

definition is_auth_challenge :: "sip_response \<Rightarrow> bool" where
  "is_auth_challenge rsp = (rsp_status rsp = 401 \<and> rsp_www_authenticate rsp \<noteq> None)"

text \<open>\<^verbatim>\<open>Sip._handleInviteResponse\<close>\<close>

definition handleInviteResponse ::
  "(string \<Rightarrow> sip_request \<Rightarrow> string) \<Rightarrow> sip_response \<Rightarrow> sip_state \<Rightarrow> sip_state \<times> sip_effect list" where
  "handleInviteResponse sign rsp st =
     (case inviteRequest st of
        None \<Rightarrow> (st, [])
      | Some invite \<Rightarrow>
          if is_auth_challenge rsp then
            (let (again, effs) = retryWithDigestAuth sign invite rsp CbHandleInviteResponse
             in (st\<lparr>inviteRequest := Some again\<rparr>, effs))
          else if 100 \<le> rsp_status rsp \<and> rsp_status rsp < 200 then
            (st, if rsp_status rsp = 180 then [Emit Ringing] else [])
          else if 200 \<le> rsp_status rsp \<and> rsp_status rsp < 300 then
            (let info = parseRemoteSdp (rsp_content rsp);
                 ack = \<lparr>req_method = ''ACK'', req_call_id = rsp_call_id rsp,
                        req_cseq = rsp_cseq rsp, req_authorization = None, req_content = []\<rparr>
             in (st\<lparr>sipSession := Some rsp, serverRtpInfo := info\<rparr>,
                 [SendRequest ack None, Emit (CallEstablished info)]))
          else
            (st\<lparr>inviteRequest := None\<rparr>, [Emit (CallFailed (rsp_status rsp) (rsp_reason rsp))]))"

text \<open>
  The response handlers of \<^verbatim>\<open>Sip.register\<close> and of the unregistration in
  \<^verbatim>\<open>Sip.cleanup\<close>: a challenge is answered by one signed retry whose continuation does
  nothing; every other response is only logged.
\<close>

definition handleRegisterResponse ::
  "(string \<Rightarrow> sip_request \<Rightarrow> string) \<Rightarrow> sip_request \<Rightarrow> sip_response \<Rightarrow> sip_effect list" where
  "handleRegisterResponse sign rq rsp =
     (if is_auth_challenge rsp then snd (retryWithDigestAuth sign rq rsp CbNoop) else [])"

text \<open>The library hands a response to the continuation of the request it answers.\<close>

fun deliver ::
  "(string \<Rightarrow> sip_request \<Rightarrow> string) \<Rightarrow> callback \<Rightarrow> sip_response \<Rightarrow> sip_state \<Rightarrow> sip_state \<times> sip_effect list" where
  "deliver sign (OnRegisterResponse rq) rsp st = (st, handleRegisterResponse sign rq rsp)"
| "deliver sign (OnUnregisterResponse rq) rsp st = (st, handleRegisterResponse sign rq rsp)"
| "deliver sign OnInviteResponse rsp st = handleInviteResponse sign rsp st"
| "deliver sign (OnAuthResponse CbNoop) rsp st = (st, [])"
| "deliver sign (OnAuthResponse CbHandleInviteResponse) rsp st = handleInviteResponse sign rsp st"

text \<open>
  \<^verbatim>\<open>Sip._handleInboundInvite\<close>. \<open>sessionId\<close> is the clock reading taken for the
  answer.
\<close>

definition handleInboundInvite ::
  "sip_env \<Rightarrow> int \<Rightarrow> sip_request \<Rightarrow> sip_state \<Rightarrow> sip_state \<times> sip_effect list" where
  "handleInboundInvite env sessionId rq st =
     (if initiatingCall st then (st, [])
      else
        (let st1 = st\<lparr>initiatingCall := True, currentCallId := Some (req_call_id rq)\<rparr>;
             remoteInfo = parseRemoteSdp (req_content rq)
         in (case remoteInfo of
               None \<Rightarrow> (st1, [SendResponse (makeResponse rq 488 ''Not Acceptable Here'')])
             | Some info \<Rightarrow>
                 if audio info = None
                 then (st1, [SendResponse (makeResponse rq 488 ''Not Acceptable Here'')])
                 else
                   (let okResponse = (makeResponse rq 200 ''OK'')
                          \<lparr>rsp_content_type := Some ''application/sdp'',
                           rsp_content := buildLocalSdp env sessionId\<rparr>
                    in (st1\<lparr>serverRtpInfo := remoteInfo, sipSession := Some okResponse\<rparr>,
                        [SendResponse (makeResponse rq 100 ''Trying''),
                         Emit InboundCall,
                         SendResponse (makeResponse rq 180 ''Ringing''),
                         SendResponse okResponse,
                         Emit (CallEstablished remoteInfo)])))))"

text \<open>
  The packet senders. A packet object is its payload-type field and the rest of its
  fields. \<^verbatim>\<open>rtp.serialize()\<close> of the RTP library writes the low 7 bits of the
  payload type into the datagram. \<^verbatim>\<open>send\<close> of a datagram socket throws for a port
  that is not an integer from 1 to 65535, and calling it on a field that is
  \<^verbatim>\<open>null\<close> throws a type error; otherwise the datagram is handed to the socket for
  the given port and address. An exception leaves the sender after the payload type has
  been assigned to the packet object.
\<close>

record rtp_packet =
  rtp_payloadType :: jsnum
  rtp_rest :: string

record wire_packet =
  wire_payloadType :: int
  wire_rest :: string

definition serialize :: "rtp_packet \<Rightarrow> wire_packet" where
  "serialize p =
     \<lparr>wire_payloadType = (case rtp_payloadType p of Num n \<Rightarrow> n mod 128 | _ \<Rightarrow> 0),
      wire_rest = rtp_rest p\<rparr>"

record udp_send =
  sent_packet :: wire_packet
  sent_port :: jsnum
  sent_destination :: string

datatype send_error = TypeError | BadPort

definition valid_port :: "jsnum \<Rightarrow> bool" where
  "valid_port p = (case p of Num n \<Rightarrow> 1 \<le> n \<and> n \<le> 65535 | _ \<Rightarrow> False)"

definition socket_send ::
  "bool \<Rightarrow> wire_packet \<Rightarrow> jsnum \<Rightarrow> string \<Rightarrow> udp_send list \<times> send_error option" where
  "socket_send socket msg p address =
     (if \<not> socket then ([], Some TypeError)
      else if \<not> valid_port p then ([], Some BadPort)
      else ([\<lparr>sent_packet = msg, sent_port = p, sent_destination = address\<rparr>], None))"

text \<open>
  \<^verbatim>\<open>Sip.sendAudioPacket\<close> and \<^verbatim>\<open>Sip.sendVideoPacket\<close>: the packet object as the
  sender leaves it, the datagrams handed to the socket, and the exception thrown, if any.
  \<open>process\<close> is the sequencer (\<^verbatim>\<open>RtpSequencer.process\<close>, of a module that is not
  part of the sources): it may rewrite the packet and answers whether to forward it.
\<close>

definition sip_sendAudioPacket ::
  "(rtp_packet \<Rightarrow> bool \<Rightarrow> rtp_packet \<times> bool) \<Rightarrow> sip_state \<Rightarrow> rtp_packet \<Rightarrow> bool
   \<Rightarrow> rtp_packet \<times> udp_send list \<times> send_error option" where
  "sip_sendAudioPacket process st rtp isTone =
     (case serverRtpInfo st of
        None \<Rightarrow> (rtp, [], None)
      | Some info \<Rightarrow>
          (case audio info of
             None \<Rightarrow> (rtp, [], None)
           | Some a \<Rightarrow>
               (let (rtp1, shouldForward) = process rtp isTone
                in if \<not> shouldForward then (rtp1, [], None)
                   else
                     (let rtp2 = rtp1\<lparr>rtp_payloadType := payloadType a\<rparr>
                      in (rtp2, socket_send (udp st) (serialize rtp2) (port a) (destination a))))))"

definition sip_sendVideoPacket ::
  "sip_state \<Rightarrow> rtp_packet \<Rightarrow> rtp_packet \<times> udp_send list \<times> send_error option" where
  "sip_sendVideoPacket st rtp =
     (case serverRtpInfo st of
        None \<Rightarrow> (rtp, [], None)
      | Some info \<Rightarrow>
          (case video info of
             None \<Rightarrow> (rtp, [], None)
           | Some v \<Rightarrow>
               (let rtp2 = rtp\<lparr>rtp_payloadType := payloadType v\<rparr>
                in (rtp2, socket_send (udpVideo st) (serialize rtp2) (port v) (destination v)))))"

section \<open>The doorbell leg (ring.js)\<close>

text \<open>
  A live call of the vendor's client is a handle. \<open>ring_ringApi\<close> and \<open>ring_camera\<close>
  say that the field is set, which \<^verbatim>\<open>initialize\<close> does. \<open>ring_intentionalDisconnect\<close>
  is \<open>False\<close> also while the field is still undefined, which is how the source reads it.
\<close>

type_synonym call = nat

record ring_state =
  ring_ringApi :: bool
  ring_camera :: bool
  ring_currentCall :: "call option"
  ring_initiatingCall :: bool
  ring_intentionalDisconnect :: bool
  ring_receivingAudio :: bool
  ring_sip :: bool
  ring_audioPayloadType :: "jsnum option"

datatype ring_event = RingCallEnded | RingCallEstablished | RingReceivingAudio

text \<open>
  The functions handed to \<^verbatim>\<open>setTimeout\<close> and \<^verbatim>\<open>setInterval\<close>: the reconnection,
  the key-frame request on the current call, and the key-frame request on the call that
  \<^verbatim>\<open>_establishCall\<close> has just started.
\<close>

datatype ring_timer = Reconnect | RequestKeyFrameCurrent | RequestKeyFrameOf call

datatype ring_effect =
    RingEmit ring_event
  | SetTimeout nat ring_timer
  | SetInterval nat ring_timer
  | StartLiveCall
  | ActivateCameraSpeaker call
  | CallRequestKeyFrame call
  | StopCall call
  | CallSendAudio call rtp_packet

datatype promise_outcome = Resolved | Rejected

text \<open>
  \<^verbatim>\<open>Ring._establishCall\<close>, called with the \<^verbatim>\<open>resolve\<close> and \<^verbatim>\<open>reject\<close> of
  the promise of \<^verbatim>\<open>initiateCall\<close>. \<open>live\<close> is the outcome of the vendor's
  \<^verbatim>\<open>startLiveCall\<close>: a call, or \<open>None\<close> when it throws. Without a camera the
  \<^verbatim>\<open>try\<close> block throws before that call. The suspension at \<^verbatim>\<open>await\<close> is not
  modelled: the outcome is at hand when the function runs.
\<close>

definition ring_establishCall ::
  "call option \<Rightarrow> ring_state \<Rightarrow> ring_state \<times> promise_outcome \<times> ring_effect list" where
  "ring_establishCall live st =
     (if \<not> ring_ringApi st then (st, Rejected, [])
      else if \<not> ring_camera st then (st, Rejected, [])
      else
        (case live of
           None \<Rightarrow> (st, Rejected, [StartLiveCall])
         | Some c \<Rightarrow>
             (st\<lparr>ring_currentCall := Some c\<rparr>, Resolved,
              StartLiveCall
              # (if ring_sip st then [SetTimeout 500 RequestKeyFrameCurrent] else [])
              @ [ActivateCameraSpeaker c, SetTimeout 1000 (RequestKeyFrameOf c),
                 SetInterval 4000 (RequestKeyFrameOf c)])))"

text \<open>\<^verbatim>\<open>Ring.initiateCall\<close>: no promise is returned when a call is already starting.\<close>

definition ring_initiateCall ::
  "call option \<Rightarrow> ring_state \<Rightarrow> ring_state \<times> promise_outcome option \<times> ring_effect list" where
  "ring_initiateCall live st =
     (if ring_initiatingCall st then (st, None, [])
      else
        (let st1 = st\<lparr>ring_initiatingCall := True, ring_intentionalDisconnect := False\<rparr>;
             (st2, outcome, effs) = ring_establishCall live st1
         in (st2, Some outcome, effs)))"

text \<open>The subscriber of \<^verbatim>\<open>call.onCallEnded\<close> in \<^verbatim>\<open>_establishCall\<close>.\<close>

definition ring_onCallEnded :: "ring_state \<Rightarrow> ring_state \<times> ring_effect list" where
  "ring_onCallEnded st =
     (if \<not> ring_intentionalDisconnect st
      then (st\<lparr>ring_currentCall := None, ring_initiatingCall := False\<rparr>, [SetTimeout 2000 Reconnect])
      else (st, [RingEmit RingCallEnded]))"

text \<open>The function the subscriber hands to \<^verbatim>\<open>setTimeout\<close>.\<close>

definition ring_reconnect :: "call option \<Rightarrow> ring_state \<Rightarrow> ring_state \<times> ring_effect list" where
  "ring_reconnect live st =
     (let (st1, result, effs) = ring_initiateCall live st
      in (case result of
            Some Rejected \<Rightarrow> (st1, effs @ [RingEmit RingCallEnded])
          | _ \<Rightarrow> (st1, effs)))"

text \<open>
  What runs when a timer fires; \<open>live\<close> is the outcome of \<^verbatim>\<open>startLiveCall\<close>, should
  the function get that far.
\<close>

fun ring_timer_callback ::
  "ring_timer \<Rightarrow> call option \<Rightarrow> ring_state \<Rightarrow> ring_state \<times> ring_effect list" where
  "ring_timer_callback Reconnect live st = ring_reconnect live st"
| "ring_timer_callback RequestKeyFrameCurrent live st =
     (st, case ring_currentCall st of Some c \<Rightarrow> [CallRequestKeyFrame c] | None \<Rightarrow> [])"
| "ring_timer_callback (RequestKeyFrameOf c) live st = (st, [CallRequestKeyFrame c])"

text \<open>\<^verbatim>\<open>Ring.cleanup\<close>\<close>

definition ring_cleanup :: "ring_state \<Rightarrow> ring_state \<times> ring_effect list" where
  "ring_cleanup st =
     (let st1 = st\<lparr>ring_intentionalDisconnect := True\<rparr>
      in (case ring_currentCall st1 of
            Some c \<Rightarrow> (st1\<lparr>ring_currentCall := None\<rparr>, [StopCall c])
          | None \<Rightarrow> (st1, [])))"

text \<open>\<^verbatim>\<open>Ring.pipeAudio\<close>; a current call has its connection.\<close>

definition ring_pipeAudio :: "ring_state \<Rightarrow> ring_state \<times> ring_effect list" where
  "ring_pipeAudio st =
     (st\<lparr>ring_sip := True\<rparr>,
      case ring_currentCall st of Some c \<Rightarrow> [CallRequestKeyFrame c] | None \<Rightarrow> [])"

text \<open>\<^verbatim>\<open>Ring.sendAudioPacket\<close>\<close>

definition ring_sendAudioPacket ::
  "(rtp_packet \<Rightarrow> bool \<Rightarrow> rtp_packet \<times> bool) \<Rightarrow> ring_state \<Rightarrow> rtp_packet \<Rightarrow> bool
   \<Rightarrow> rtp_packet \<times> ring_effect list" where
  "ring_sendAudioPacket process st rtp isTone =
     (case ring_currentCall st of
        None \<Rightarrow> (rtp, [])
      | Some c \<Rightarrow>
          (let (rtp1, shouldForward) = process rtp isTone
           in if \<not> shouldForward then (rtp1, [])
              else
                (let rtp2 = (if truthy_num (ring_audioPayloadType st)
                             then (case ring_audioPayloadType st of
                                     Some pt \<Rightarrow> rtp1\<lparr>rtp_payloadType := pt\<rparr>
                                   | None \<Rightarrow> rtp1)
                             else rtp1)
                 in (rtp2, [CallSendAudio c rtp2]))))"

text \<open>
  Runs of the doorbell leg. What reaches the leg is a call of \<^verbatim>\<open>initiateCall\<close>,
  \<^verbatim>\<open>cleanup\<close> or \<^verbatim>\<open>pipeAudio\<close>, a timer that fires, or the end of a call. The
  vendor's client reports the end of a call once, and only of a call it has started:
  \<open>rw_live\<close> counts the calls started and not yet ended, and the end of a call is not
  possible (\<open>None\<close>) when there is none. A timer may fire at any time. A run starts
  when \<^verbatim>\<open>initialize\<close> has finished, which is when \<^verbatim>\<open>index.js\<close> attaches its
  listeners. The methods left out (\<^verbatim>\<open>listen\<close>, \<^verbatim>\<open>sendAudioPacket\<close>,
  \<^verbatim>\<open>parseAudioPayloadType\<close>) and the subscribers of the packet streams write none
  of \<^verbatim>\<open>currentCall\<close>, \<^verbatim>\<open>initiatingCall\<close> and \<^verbatim>\<open>intentionalDisconnect\<close> and
  set no timer.
\<close>

record ring_world =
  rw_state :: ring_state
  rw_live :: nat

datatype ring_input =
    DoInitiateCall "call option"
  | DoCleanup
  | DoPipeAudio
  | TimerFired ring_timer "call option"
  | CallEnded_event

fun ring_world_step :: "ring_input \<Rightarrow> ring_world \<Rightarrow> (ring_world \<times> ring_effect list) option" where
  "ring_world_step (DoInitiateCall live) w =
     (let (st, result, effs) = ring_initiateCall live (rw_state w)
      in Some (\<lparr>rw_state = st,
                rw_live = (if result = Some Resolved then Suc (rw_live w) else rw_live w)\<rparr>, effs))"
| "ring_world_step DoCleanup w =
     (let (st, effs) = ring_cleanup (rw_state w) in Some (w\<lparr>rw_state := st\<rparr>, effs))"
| "ring_world_step DoPipeAudio w =
     (let (st, effs) = ring_pipeAudio (rw_state w) in Some (w\<lparr>rw_state := st\<rparr>, effs))"
| "ring_world_step (TimerFired t live) w =
     (let (st, effs) = ring_timer_callback t live (rw_state w)
      in Some (\<lparr>rw_state = st,
                rw_live = (if t = Reconnect
                              \<and> fst (snd (ring_initiateCall live (rw_state w))) = Some Resolved
                           then Suc (rw_live w) else rw_live w)\<rparr>, effs))"
| "ring_world_step CallEnded_event w =
     (if rw_live w = 0 then None
      else
        (let (st, effs) = ring_onCallEnded (rw_state w)
         in Some (\<lparr>rw_state = st, rw_live = rw_live w - 1\<rparr>, effs)))"

fun ring_world_run ::
  "ring_input list \<Rightarrow> ring_world \<Rightarrow> (ring_world \<times> ring_effect list) option" where
  "ring_world_run [] w = Some (w, [])"
| "ring_world_run (x # xs) w =
     (case ring_world_step x w of
        None \<Rightarrow> None
      | Some (w1, e1) \<Rightarrow>
          (case ring_world_run xs w1 of
             None \<Rightarrow> None
           | Some (w2, e2) \<Rightarrow> Some (w2, e1 @ e2)))"

section \<open>The orchestrator (index.js)\<close>

text \<open>
  The payload of a \<^verbatim>\<open>buttonPressed\<close> event is the camera itself, or the camera with
  a ding id, which may be missing; ids are text. \<open>dingId_of\<close> is the id the handler
  works with: \<^verbatim>\<open>null\<close> unless the payload carries an id that is not empty.
\<close>

datatype button_data = Camera string | CameraDing string "string option"

fun dingId_of :: "button_data \<Rightarrow> string option" where
  "dingId_of (Camera c) = None"
| "dingId_of (CameraDing c None) = None"
| "dingId_of (CameraDing c (Some i)) = (if i = [] then None else Some i)"

record orch_state =
  lastButtonPress :: int
  lastDingId :: "string option"
  ring :: ring_state
  sip :: sip_state

datatype orch_action =
    PlayHangup
  | After nat "orch_action list"
  | Notify
  | SipInitiateCall
  | RingInitiateCall
  | OnReject "orch_action list"
  | SipCleanup
  | RingCleanup
  | TonesCleanup
  | ExitProcess int

definition fullCleanup :: "orch_action list" where
  "fullCleanup = [SipCleanup, RingCleanup, TonesCleanup, After 200 [ExitProcess 0]]"

definition doConnect :: "orch_action list" where
  "doConnect = [SipInitiateCall, RingInitiateCall, OnReject fullCleanup]"

text \<open>
  Modelled from the spec: \<^verbatim>\<open>tones.playHangup\<close> (tones.js is not part of the sources)
  returns a promise that is fulfilled when playback is over, \<open>tone\<close> milliseconds after
  the call, or never when playback hangs (\<open>None\<close>). \<open>hangup_wait\<close> is the time after
  which \<^verbatim>\<open>Promise.race\<close> of that promise and the 2000 ms timer is fulfilled.
\<close>

definition hangup_wait :: "nat option \<Rightarrow> nat" where
  "hangup_wait tone = (case tone of None \<Rightarrow> 2000 | Some d \<Rightarrow> min d 2000)"

definition call_active :: "orch_state \<Rightarrow> bool" where
  "call_active st =
     (ring_initiatingCall (ring st) \<or> ring_currentCall (ring st) \<noteq> None
      \<or> initiatingCall (sip st) \<or> inviteRequest (sip st) \<noteq> None \<or> sipSession (sip st) \<noteq> None)"

text \<open>
  The listener of \<^verbatim>\<open>buttonPressed\<close>; \<open>now\<close> is the clock reading
  \<^verbatim>\<open>Date.now()\<close>.
\<close>

definition buttonPressed ::
  "nat option \<Rightarrow> int \<Rightarrow> button_data \<Rightarrow> orch_state \<Rightarrow> orch_state \<times> orch_action list" where
  "buttonPressed tone now data st =
     (let dingId = dingId_of data
      in if dingId \<noteq> None \<and> lastDingId st = dingId then (st, [])
         else if now - lastButtonPress st < 500 then (st, [])
         else
           (let st1 = st\<lparr>lastButtonPress := now,
                          lastDingId := (if dingId \<noteq> None then dingId else lastDingId st)\<rparr>
            in if call_active st1
               then (st1, [PlayHangup, After (hangup_wait tone) fullCleanup])
               else (st1, Notify # doConnect)))"

text \<open>The state in which index.js starts listening: both legs as constructed.\<close>

definition ring_initial :: ring_state where
  "ring_initial =
     \<lparr>ring_ringApi = False, ring_camera = False, ring_currentCall = None,
      ring_initiatingCall = False,
      ring_intentionalDisconnect = False, ring_receivingAudio = False, ring_sip = False,
      ring_audioPayloadType = None\<rparr>"

definition orch_initial :: orch_state where
  "orch_initial = \<lparr>lastButtonPress = 0, lastDingId = None, ring = ring_initial, sip = sip_initial\<rparr>"


text \<open>
  Sequences of the two operations of the SIP leg that start a call: an inbound INVITE
  handed to the leg, and a call of \<^verbatim>\<open>initiateCall\<close>.
\<close>

datatype sip_op = InboundInvite int sip_request | InitiateCall int string

fun sip_step :: "sip_env \<Rightarrow> sip_op \<Rightarrow> sip_state \<Rightarrow> sip_state \<times> sip_effect list" where
  "sip_step env (InboundInvite sessionId rq) st = handleInboundInvite env sessionId rq st"
| "sip_step env (InitiateCall sessionId callId) st = sip_initiateCall env sessionId callId st"

fun sip_run :: "sip_env \<Rightarrow> sip_op list \<Rightarrow> sip_state \<Rightarrow> sip_state \<times> sip_effect list" where
  "sip_run env [] st = (st, [])"
| "sip_run env (x # xs) st =
     (let (st1, e1) = sip_step env x st; (st2, e2) = sip_run env xs st1 in (st2, e1 @ e2))"

section \<open>Verified properties\<close>

subsection \<open>The guard of the SIP leg\<close>

lemma sip_step_guarded: "initiatingCall st \<Longrightarrow> sip_step env x st = (st, [])"
  by (cases x) (simp_all add: handleInboundInvite_def sip_initiateCall_def)

lemma sip_run_guarded: "initiatingCall st \<Longrightarrow> sip_run env xs st = (st, [])"
  by (induction xs) (simp_all add: sip_step_guarded)

lemma rejected_state:
  assumes "handleInboundInvite env sessionId rq st = (st', effs)"
    and "SendResponse (makeResponse rq 488 ''Not Acceptable Here'') \<in> set effs"
  shows "\<not> initiatingCall st
         \<and> st' = st\<lparr>initiatingCall := True, currentCallId := Some (req_call_id rq)\<rparr>"
  using assms
  by (auto simp: handleInboundInvite_def makeResponse_def Let_def split: if_splits option.splits)

lemma parse_v0: "parseRemoteSdp ''v=0'' = None"
  by code_simp

text \<open>
  C10: after an inbound INVITE has been rejected with 488, \<open>initiatingCall\<close> is set and
  the stored call-id is that of the rejected call, so the state differs from the one
  before the call; from then on every inbound INVITE is ignored without a response and
  every \<open>initiateCall\<close> does nothing, and so does any sequence of them.
\<close>

theorem C10_rejected_invite_keeps_guard:
  assumes "handleInboundInvite env sessionId rq st = (st', effs)"
    and "SendResponse (makeResponse rq 488 ''Not Acceptable Here'') \<in> set effs"
  shows "initiatingCall st' \<and> currentCallId st' = Some (req_call_id rq) \<and> st' \<noteq> st
         \<and> handleInboundInvite env sessionId' rq' st' = (st', [])
         \<and> sip_initiateCall env sessionId' callId' st' = (st', [])
         \<and> sip_run env ops st' = (st', [])"
proof -
  from rejected_state [OF assms]
  have pre: "\<not> initiatingCall st"
    and st': "st' = st\<lparr>initiatingCall := True, currentCallId := Some (req_call_id rq)\<rparr>"
    by simp_all
  have flag: "initiatingCall st'" using st' by simp
  have "st' \<noteq> st" using pre flag by auto
  moreover have "handleInboundInvite env sessionId' rq' st' = (st', [])"
    using flag by (simp add: handleInboundInvite_def)
  moreover have "sip_initiateCall env sessionId' callId' st' = (st', [])"
    using flag by (simp add: sip_initiateCall_def)
  moreover have "sip_run env ops st' = (st', [])"
    using flag by (rule sip_run_guarded)
  ultimately show ?thesis using flag st' by simp
qed

theorem C10_rejected_invite_keeps_guard_witness:
  "handleInboundInvite \<lparr>LOCAL_IP = ''10.0.0.2'', LOCAL_VIDEO_PORT = Num 8002\<rparr> 1
       \<lparr>req_method = ''INVITE'', req_call_id = ''call-1'', req_cseq = 1,
        req_authorization = None, req_content = ''v=0''\<rparr> sip_initial
     = (sip_initial\<lparr>initiatingCall := True, currentCallId := Some ''call-1''\<rparr>,
        [SendResponse (makeResponse \<lparr>req_method = ''INVITE'', req_call_id = ''call-1'', req_cseq = 1,
            req_authorization = None, req_content = ''v=0''\<rparr> 488 ''Not Acceptable Here'')])
   \<and> sip_run \<lparr>LOCAL_IP = ''10.0.0.2'', LOCAL_VIDEO_PORT = Num 8002\<rparr>
        [InboundInvite 2 \<lparr>req_method = ''INVITE'', req_call_id = ''call-2'', req_cseq = 1,
            req_authorization = None, req_content = ''v=0''\<rparr>, InitiateCall 3 ''call-3'']
        (sip_initial\<lparr>initiatingCall := True, currentCallId := Some ''call-1''\<rparr>)
     = (sip_initial\<lparr>initiatingCall := True, currentCallId := Some ''call-1''\<rparr>, [])"
proof -
  let ?env = "\<lparr>LOCAL_IP = ''10.0.0.2'', LOCAL_VIDEO_PORT = Num 8002\<rparr>"
  let ?rq = "\<lparr>req_method = ''INVITE'', req_call_id = ''call-1'', req_cseq = 1,
              req_authorization = None, req_content = ''v=0''\<rparr>"
  let ?st = "sip_initial\<lparr>initiatingCall := True, currentCallId := Some ''call-1''\<rparr>"
  let ?effs = "[SendResponse (makeResponse ?rq 488 ''Not Acceptable Here'')]"
  have h1: "handleInboundInvite ?env 1 ?rq sip_initial = (?st, ?effs)"
    by (simp add: handleInboundInvite_def parse_v0 sip_initial_def)
  have h2: "SendResponse (makeResponse ?rq 488 ''Not Acceptable Here'') \<in> set ?effs"
    by simp
  from C10_rejected_invite_keeps_guard [OF h1 h2] h1 show ?thesis
    by blast
qed

subsection \<open>The button listener\<close>





text \<open>
  C5: let a first button press be accepted. A second press whose ding id is the
  (non-empty) id of the first is suppressed whatever time has passed, and a second press
  less than 500 ms after the first is suppressed whatever its id; a suppressed press
  changes nothing and causes no action. What the legs did in between is irrelevant.
\<close>

theorem C5_debounce:
  assumes first: "buttonPressed tone now data st = (st', acts)" and accepted: "acts \<noteq> []"
  shows "(data = CameraDing cam (Some ident) \<and> data' = CameraDing cam' (Some ident) \<and> ident \<noteq> []
            \<longrightarrow> buttonPressed tone' now' data' (st'\<lparr>ring := r, sip := s\<rparr>)
                = (st'\<lparr>ring := r, sip := s\<rparr>, []))
       \<and> (now' - now < 500
            \<longrightarrow> buttonPressed tone' now' data' (st'\<lparr>ring := r, sip := s\<rparr>)
                = (st'\<lparr>ring := r, sip := s\<rparr>, []))"
proof -
  from first accepted
  have st': "st' = st\<lparr>lastButtonPress := now,
                      lastDingId := (if dingId_of data \<noteq> None then dingId_of data else lastDingId st)\<rparr>"
    by (auto simp: buttonPressed_def Let_def doConnect_def split: if_splits)
  have time: "lastButtonPress st' = now" using st' by simp
  have last_id: "dingId_of data \<noteq> None \<Longrightarrow> lastDingId st' = dingId_of data" using st' by simp
  show ?thesis
  proof (intro conjI impI)
    assume a: "data = CameraDing cam (Some ident) \<and> data' = CameraDing cam' (Some ident) \<and> ident \<noteq> []"
    then have "dingId_of data' = Some ident" "lastDingId st' = Some ident" using last_id by simp_all
    then show "buttonPressed tone' now' data' (st'\<lparr>ring := r, sip := s\<rparr>)
               = (st'\<lparr>ring := r, sip := s\<rparr>, [])"
      by (simp add: buttonPressed_def)
  next
    assume "now' - now < 500"
    then show "buttonPressed tone' now' data' (st'\<lparr>ring := r, sip := s\<rparr>)
               = (st'\<lparr>ring := r, sip := s\<rparr>, [])"
      using time by (simp add: buttonPressed_def Let_def)
  qed
qed

theorem C5_debounce_witness:
  "buttonPressed None 1000 (CameraDing ''Front Door'' (Some ''ding-7'')) orch_initial
     = (orch_initial\<lparr>lastButtonPress := 1000, lastDingId := Some ''ding-7''\<rparr>, Notify # doConnect)
   \<and> buttonPressed None 90000 (CameraDing ''Front Door'' (Some ''ding-7''))
       (orch_initial\<lparr>lastButtonPress := 1000, lastDingId := Some ''ding-7'', ring := ring_initial,
          sip := sip_initial\<rparr>)
     = (orch_initial\<lparr>lastButtonPress := 1000, lastDingId := Some ''ding-7'', ring := ring_initial,
          sip := sip_initial\<rparr>, [])
   \<and> buttonPressed None 1499 (CameraDing ''Front Door'' (Some ''ding-8''))
       (orch_initial\<lparr>lastButtonPress := 1000, lastDingId := Some ''ding-7'', ring := ring_initial,
          sip := sip_initial\<rparr>)
     = (orch_initial\<lparr>lastButtonPress := 1000, lastDingId := Some ''ding-7'', ring := ring_initial,
          sip := sip_initial\<rparr>, [])"
proof -
  let ?d = "CameraDing ''Front Door'' (Some ''ding-7'')"
  let ?e = "CameraDing ''Front Door'' (Some ''ding-8'')"
  let ?st = "orch_initial\<lparr>lastButtonPress := 1000, lastDingId := Some ''ding-7''\<rparr>"
  have first: "buttonPressed None 1000 ?d orch_initial = (?st, Notify # doConnect)"
    by (simp add: buttonPressed_def orch_initial_def call_active_def ring_initial_def
        sip_initial_def)
  have acc: "Notify # doConnect \<noteq> []" by simp
  have same: "?d = CameraDing ''Front Door'' (Some ''ding-7'')
              \<and> ?d = CameraDing ''Front Door'' (Some ''ding-7'') \<and> ''ding-7'' \<noteq> []"
    by simp
  have fast: "(1499::int) - 1000 < 500" by simp
  from C5_debounce [OF first acc, where cam = "''Front Door''" and ident = "''ding-7''"
      and data' = ?d and cam' = "''Front Door''" and tone' = None and now' = 90000
      and r = ring_initial and s = sip_initial] same
  have a: "buttonPressed None 90000 ?d (?st\<lparr>ring := ring_initial, sip := sip_initial\<rparr>)
           = (?st\<lparr>ring := ring_initial, sip := sip_initial\<rparr>, [])"
    by blast
  from C5_debounce [OF first acc, where data' = ?e and tone' = None and now' = 1499
      and r = ring_initial and s = sip_initial] fast
  have b: "buttonPressed None 1499 ?e (?st\<lparr>ring := ring_initial, sip := sip_initial\<rparr>)
           = (?st\<lparr>ring := ring_initial, sip := sip_initial\<rparr>, [])"
    by blast
  from first a b show ?thesis by simp
qed

subsection \<open>Reconnection of the doorbell leg\<close>














text \<open>
  \<^verbatim>\<open>cleanup\<close> does not cancel a retry that an unintended end has scheduled. When the
  call has ended with the flag unset and \<^verbatim>\<open>cleanup\<close> runs before the timer fires,
  there is no call to stop; the timer then calls \<^verbatim>\<open>initiateCall\<close>, which clears the
  intentional flag and starts a call.
\<close>

lemma scheduled_retry_survives_cleanup:
  "ring_world_run [DoInitiateCall (Some 1), CallEnded_event, DoCleanup, TimerFired Reconnect (Some 2)]
     \<lparr>rw_state = ring_initial\<lparr>ring_ringApi := True, ring_camera := True\<rparr>, rw_live = 0\<rparr>
   = Some (\<lparr>rw_state = ring_initial\<lparr>ring_ringApi := True, ring_camera := True,
                ring_currentCall := Some 2, ring_initiatingCall := True\<rparr>, rw_live = 1\<rparr>,
           [StartLiveCall, ActivateCameraSpeaker 1, SetTimeout 1000 (RequestKeyFrameOf 1),
            SetInterval 4000 (RequestKeyFrameOf 1),
            SetTimeout 2000 Reconnect,
            StartLiveCall, ActivateCameraSpeaker 2, SetTimeout 1000 (RequestKeyFrameOf 2),
            SetInterval 4000 (RequestKeyFrameOf 2)])"
  by code_simp

subsection \<open>The packet senders of the SIP leg\<close>

text \<open>
  C9: \<open>sendAudioPacket\<close> of the SIP leg transmits nothing and leaves the packet as it is
  when no audio endpoint has been negotiated, and \<open>sendVideoPacket\<close> does so when no
  video endpoint has been negotiated. With an endpoint, and for audio when the sequencer
  lets the packet pass, the payload-type field of the packet is set to the endpoint's
  payload type, and then the packet is sent: exactly one datagram, to the endpoint's port
  and address, carrying the low 7 bits of that payload type, when the port is one a
  socket accepts and the socket is there; otherwise the send throws and nothing is
  transmitted. An audio packet that the sequencer drops is neither rewritten by the
  sender nor transmitted. So every datagram either sender transmits goes to a negotiated
  endpoint of its kind.
\<close>

theorem C9_packets_only_to_negotiated_endpoints:
  "((serverRtpInfo st = None \<or> (\<exists>info. serverRtpInfo st = Some info \<and> audio info = None))
      \<longrightarrow> sip_sendAudioPacket process st rtp isTone = (rtp, [], None))
   \<and> ((serverRtpInfo st = None \<or> (\<exists>info. serverRtpInfo st = Some info \<and> video info = None))
      \<longrightarrow> sip_sendVideoPacket st rtp = (rtp, [], None))
   \<and> (serverRtpInfo st = Some info \<and> audio info = Some a \<and> process rtp isTone = (rtp1, False)
      \<longrightarrow> sip_sendAudioPacket process st rtp isTone = (rtp1, [], None))
   \<and> (serverRtpInfo st = Some info \<and> audio info = Some a \<and> process rtp isTone = (rtp1, True)
      \<longrightarrow> fst (sip_sendAudioPacket process st rtp isTone) = rtp1\<lparr>rtp_payloadType := payloadType a\<rparr>
        \<and> (udp st \<and> payloadType a = Num m \<and> port a = Num n \<and> 1 \<le> n \<and> n \<le> 65535
           \<longrightarrow> snd (sip_sendAudioPacket process st rtp isTone)
               = ([\<lparr>sent_packet = \<lparr>wire_payloadType = m mod 128, wire_rest = rtp_rest rtp1\<rparr>,
                    sent_port = Num n, sent_destination = destination a\<rparr>], None))
        \<and> (udp st \<and> (\<forall>k. port a = Num k \<longrightarrow> k < 1 \<or> 65535 < k)
           \<longrightarrow> snd (sip_sendAudioPacket process st rtp isTone) = ([], Some BadPort))
        \<and> (\<not> udp st \<longrightarrow> snd (sip_sendAudioPacket process st rtp isTone) = ([], Some TypeError)))
   \<and> (serverRtpInfo st = Some info \<and> video info = Some v
      \<longrightarrow> fst (sip_sendVideoPacket st rtp) = rtp\<lparr>rtp_payloadType := payloadType v\<rparr>
        \<and> (udpVideo st \<and> payloadType v = Num m \<and> port v = Num n \<and> 1 \<le> n \<and> n \<le> 65535
           \<longrightarrow> snd (sip_sendVideoPacket st rtp)
               = ([\<lparr>sent_packet = \<lparr>wire_payloadType = m mod 128, wire_rest = rtp_rest rtp\<rparr>,
                    sent_port = Num n, sent_destination = destination v\<rparr>], None))
        \<and> (udpVideo st \<and> (\<forall>k. port v = Num k \<longrightarrow> k < 1 \<or> 65535 < k)
           \<longrightarrow> snd (sip_sendVideoPacket st rtp) = ([], Some BadPort))
        \<and> (\<not> udpVideo st \<longrightarrow> snd (sip_sendVideoPacket st rtp) = ([], Some TypeError)))
   \<and> (\<forall>u \<in> set (fst (snd (sip_sendAudioPacket process st rtp isTone))).
        \<exists>info a. serverRtpInfo st = Some info \<and> audio info = Some a
          \<and> sent_port u = port a \<and> sent_destination u = destination a)
   \<and> (\<forall>u \<in> set (fst (snd (sip_sendVideoPacket st rtp))).
        \<exists>info v. serverRtpInfo st = Some info \<and> video info = Some v
          \<and> sent_port u = port v \<and> sent_destination u = destination v)"
proof -
  have bad: "\<not> valid_port p" if "\<forall>k. p = Num k \<longrightarrow> k < 1 \<or> 65535 < k" for p
    using that by (cases p) (auto simp: valid_port_def)
  have good: "valid_port (Num n)" if "1 \<le> n \<and> n \<le> 65535" for n
    using that by (simp add: valid_port_def)
  show ?thesis
    by (auto simp: sip_sendAudioPacket_def sip_sendVideoPacket_def socket_send_def serialize_def
        bad good Let_def split: option.splits prod.splits if_splits)
qed

theorem C9_packets_only_to_negotiated_endpoints_witness:
  "sip_sendAudioPacket (\<lambda>p t. (p, True)) sip_initial
       \<lparr>rtp_payloadType = Num 96, rtp_rest = ''abc''\<rparr> False
     = (\<lparr>rtp_payloadType = Num 96, rtp_rest = ''abc''\<rparr>, [], None)
   \<and> sip_sendVideoPacket
       (sip_initial\<lparr>serverRtpInfo := Some \<lparr>audio = Some \<lparr>destination = ''10.0.0.9'',
          port = Num 5004, payloadType = Num 111\<rparr>, video = None\<rparr>\<rparr>)
       \<lparr>rtp_payloadType = Num 96, rtp_rest = ''abc''\<rparr>
     = (\<lparr>rtp_payloadType = Num 96, rtp_rest = ''abc''\<rparr>, [], None)
   \<and> sip_sendAudioPacket (\<lambda>p t. (p, False))
       (sip_initial\<lparr>serverRtpInfo := Some \<lparr>audio = Some \<lparr>destination = ''10.0.0.9'',
          port = Num 5004, payloadType = Num 111\<rparr>, video = None\<rparr>\<rparr>)
       \<lparr>rtp_payloadType = Num 96, rtp_rest = ''abc''\<rparr> False
     = (\<lparr>rtp_payloadType = Num 96, rtp_rest = ''abc''\<rparr>, [], None)
   \<and> sip_sendAudioPacket (\<lambda>p t. (p, True))
       (sip_initial\<lparr>serverRtpInfo := Some \<lparr>audio = Some \<lparr>destination = ''10.0.0.9'',
          port = Num 5004, payloadType = Num 111\<rparr>, video = None\<rparr>\<rparr>)
       \<lparr>rtp_payloadType = Num 96, rtp_rest = ''abc''\<rparr> False
     = (\<lparr>rtp_payloadType = Num 111, rtp_rest = ''abc''\<rparr>,
        [\<lparr>sent_packet = \<lparr>wire_payloadType = 111, wire_rest = ''abc''\<rparr>, sent_port = Num 5004,
          sent_destination = ''10.0.0.9''\<rparr>], None)
   \<and> sip_sendAudioPacket (\<lambda>p t. (p, True))
       (sip_initial\<lparr>serverRtpInfo := Some \<lparr>audio = Some \<lparr>destination = ''10.0.0.9'',
          port = Num 0, payloadType = Num 111\<rparr>, video = None\<rparr>\<rparr>)
       \<lparr>rtp_payloadType = Num 96, rtp_rest = ''abc''\<rparr> False
     = (\<lparr>rtp_payloadType = Num 111, rtp_rest = ''abc''\<rparr>, [], Some BadPort)
   \<and> sip_sendAudioPacket (\<lambda>p t. (p, True))
       (sip_initial\<lparr>serverRtpInfo := Some \<lparr>audio = Some \<lparr>destination = ''10.0.0.9'',
          port = Num 5004, payloadType = Num 111\<rparr>, video = None\<rparr>, udp := False\<rparr>)
       \<lparr>rtp_payloadType = Num 96, rtp_rest = ''abc''\<rparr> False
     = (\<lparr>rtp_payloadType = Num 111, rtp_rest = ''abc''\<rparr>, [], Some TypeError)
   \<and> sip_sendVideoPacket
       (sip_initial\<lparr>serverRtpInfo := Some \<lparr>audio = None, video = Some \<lparr>destination = ''10.0.0.9'',
          port = Num 5006, payloadType = Num 227\<rparr>\<rparr>\<rparr>)
       \<lparr>rtp_payloadType = Num 96, rtp_rest = ''abc''\<rparr>
     = (\<lparr>rtp_payloadType = Num 227, rtp_rest = ''abc''\<rparr>,
        [\<lparr>sent_packet = \<lparr>wire_payloadType = 99, wire_rest = ''abc''\<rparr>, sent_port = Num 5006,
          sent_destination = ''10.0.0.9''\<rparr>], None)
   \<and> sip_sendVideoPacket
       (sip_initial\<lparr>serverRtpInfo := Some \<lparr>audio = None, video = Some \<lparr>destination = ''10.0.0.9'',
          port = Num 70000, payloadType = Num 227\<rparr>\<rparr>\<rparr>)
       \<lparr>rtp_payloadType = Num 96, rtp_rest = ''abc''\<rparr>
     = (\<lparr>rtp_payloadType = Num 227, rtp_rest = ''abc''\<rparr>, [], Some BadPort)
   \<and> sip_sendVideoPacket
       (sip_initial\<lparr>serverRtpInfo := Some \<lparr>audio = None, video = Some \<lparr>destination = ''10.0.0.9'',
          port = Num 5006, payloadType = Num 227\<rparr>\<rparr>, udpVideo := False\<rparr>)
       \<lparr>rtp_payloadType = Num 96, rtp_rest = ''abc''\<rparr>
     = (\<lparr>rtp_payloadType = Num 227, rtp_rest = ''abc''\<rparr>, [], Some TypeError)"
proof -
  let ?a = "\<lparr>destination = ''10.0.0.9'', port = Num 5004, payloadType = Num 111\<rparr>"
  let ?zero = "\<lparr>destination = ''10.0.0.9'', port = Num 0, payloadType = Num 111\<rparr>"
  let ?v = "\<lparr>destination = ''10.0.0.9'', port = Num 5006, payloadType = Num 227\<rparr>"
  let ?vbig = "\<lparr>destination = ''10.0.0.9'', port = Num 70000, payloadType = Num 227\<rparr>"
  let ?p = "\<lparr>rtp_payloadType = Num 96, rtp_rest = ''abc''\<rparr>"
  let ?pass = "\<lambda>(p::rtp_packet) (t::bool). (p, True)"
  let ?drop = "\<lambda>(p::rtp_packet) (t::bool). (p, False)"
  have none: "serverRtpInfo sip_initial = None"
    and sockets: "udp sip_initial" "udpVideo sip_initial"
    by (simp_all add: sip_initial_def)
  from C9_packets_only_to_negotiated_endpoints
      [where st = sip_initial and process = ?pass and rtp = ?p and isTone = False] none
  have idle: "sip_sendAudioPacket ?pass sip_initial ?p False = (?p, [], None)"
    by simp
  from C9_packets_only_to_negotiated_endpoints
      [where st = "sip_initial\<lparr>serverRtpInfo := Some \<lparr>audio = Some ?a, video = None\<rparr>\<rparr>"
        and process = ?drop and rtp = ?p and isTone = False
        and info = "\<lparr>audio = Some ?a, video = None\<rparr>" and a = ?a and ?rtp1.0 = ?p]
  have novideo: "sip_sendVideoPacket
        (sip_initial\<lparr>serverRtpInfo := Some \<lparr>audio = Some ?a, video = None\<rparr>\<rparr>) ?p = (?p, [], None)"
    and dropped: "sip_sendAudioPacket ?drop
        (sip_initial\<lparr>serverRtpInfo := Some \<lparr>audio = Some ?a, video = None\<rparr>\<rparr>) ?p False
        = (?p, [], None)"
    by simp_all
  from C9_packets_only_to_negotiated_endpoints
      [where st = "sip_initial\<lparr>serverRtpInfo := Some \<lparr>audio = Some ?a, video = None\<rparr>\<rparr>"
        and process = ?pass and rtp = ?p and isTone = False
        and info = "\<lparr>audio = Some ?a, video = None\<rparr>" and a = ?a and ?rtp1.0 = ?p
        and m = 111 and n = 5004] sockets
  have sent: "sip_sendAudioPacket ?pass
        (sip_initial\<lparr>serverRtpInfo := Some \<lparr>audio = Some ?a, video = None\<rparr>\<rparr>) ?p False
        = (\<lparr>rtp_payloadType = Num 111, rtp_rest = ''abc''\<rparr>,
           [\<lparr>sent_packet = \<lparr>wire_payloadType = 111, wire_rest = ''abc''\<rparr>, sent_port = Num 5004,
             sent_destination = ''10.0.0.9''\<rparr>], None)"
    by (simp add: prod_eq_iff)
  from C9_packets_only_to_negotiated_endpoints
      [where st = "sip_initial\<lparr>serverRtpInfo := Some \<lparr>audio = Some ?zero, video = None\<rparr>\<rparr>"
        and process = ?pass and rtp = ?p and isTone = False
        and info = "\<lparr>audio = Some ?zero, video = None\<rparr>" and a = ?zero and ?rtp1.0 = ?p] sockets
  have badport: "sip_sendAudioPacket ?pass
        (sip_initial\<lparr>serverRtpInfo := Some \<lparr>audio = Some ?zero, video = None\<rparr>\<rparr>) ?p False
        = (\<lparr>rtp_payloadType = Num 111, rtp_rest = ''abc''\<rparr>, [], Some BadPort)"
    by (simp add: prod_eq_iff)
  from C9_packets_only_to_negotiated_endpoints
      [where st = "sip_initial\<lparr>serverRtpInfo := Some \<lparr>audio = Some ?a, video = None\<rparr>, udp := False\<rparr>"
        and process = ?pass and rtp = ?p and isTone = False
        and info = "\<lparr>audio = Some ?a, video = None\<rparr>" and a = ?a and ?rtp1.0 = ?p]
  have closed: "sip_sendAudioPacket ?pass
        (sip_initial\<lparr>serverRtpInfo := Some \<lparr>audio = Some ?a, video = None\<rparr>, udp := False\<rparr>) ?p False
        = (\<lparr>rtp_payloadType = Num 111, rtp_rest = ''abc''\<rparr>, [], Some TypeError)"
    by (simp add: prod_eq_iff)
  from C9_packets_only_to_negotiated_endpoints
      [where st = "sip_initial\<lparr>serverRtpInfo := Some \<lparr>audio = None, video = Some ?v\<rparr>\<rparr>"
        and rtp = ?p and info = "\<lparr>audio = None, video = Some ?v\<rparr>" and v = ?v
        and m = 227 and n = 5006] sockets
  have vsent: "sip_sendVideoPacket
        (sip_initial\<lparr>serverRtpInfo := Some \<lparr>audio = None, video = Some ?v\<rparr>\<rparr>) ?p
        = (\<lparr>rtp_payloadType = Num 227, rtp_rest = ''abc''\<rparr>,
           [\<lparr>sent_packet = \<lparr>wire_payloadType = 99, wire_rest = ''abc''\<rparr>, sent_port = Num 5006,
             sent_destination = ''10.0.0.9''\<rparr>], None)"
    by (simp add: prod_eq_iff)
  from C9_packets_only_to_negotiated_endpoints
      [where st = "sip_initial\<lparr>serverRtpInfo := Some \<lparr>audio = None, video = Some ?vbig\<rparr>\<rparr>"
        and rtp = ?p and info = "\<lparr>audio = None, video = Some ?vbig\<rparr>" and v = ?vbig] sockets
  have vbadport: "sip_sendVideoPacket
        (sip_initial\<lparr>serverRtpInfo := Some \<lparr>audio = None, video = Some ?vbig\<rparr>\<rparr>) ?p
        = (\<lparr>rtp_payloadType = Num 227, rtp_rest = ''abc''\<rparr>, [], Some BadPort)"
    by (simp add: prod_eq_iff)
  from C9_packets_only_to_negotiated_endpoints
      [where st = "sip_initial\<lparr>serverRtpInfo := Some \<lparr>audio = None, video = Some ?v\<rparr>, udpVideo := False\<rparr>"
        and rtp = ?p and info = "\<lparr>audio = None, video = Some ?v\<rparr>" and v = ?v]
  have vclosed: "sip_sendVideoPacket
        (sip_initial\<lparr>serverRtpInfo := Some \<lparr>audio = None, video = Some ?v\<rparr>, udpVideo := False\<rparr>) ?p
        = (\<lparr>rtp_payloadType = Num 227, rtp_rest = ''abc''\<rparr>, [], Some TypeError)"
    by (simp add: prod_eq_iff)
  from idle novideo dropped sent badport closed vsent vbadport vclosed
  show ?thesis by blast
qed

text \<open>
  The sender of the doorbell leg is guarded by the current call instead: without one it
  leaves the packet alone and hands nothing on, and what it hands on goes to the current
  call.
\<close>

lemma ring_sender_needs_call:
  "(ring_currentCall st = None \<longrightarrow> ring_sendAudioPacket process st rtp isTone = (rtp, []))
   \<and> (\<forall>y \<in> set (snd (ring_sendAudioPacket process st rtp isTone)).
        \<exists>c p. ring_currentCall st = Some c \<and> y = CallSendAudio c p)"
  by (auto simp: ring_sendAudioPacket_def Let_def split: option.splits prod.splits if_splits)

subsection \<open>Digest authentication\<close>

lemma retry_cseq:
  "req_cseq (fst (retryWithDigestAuth sign rq rsp cb)) = req_cseq rq + 1"
  by (simp add: retryWithDigestAuth_def Let_def)

lemma register_retry_is_final:
  "is_auth_challenge rsp \<Longrightarrow>
   deliver sign (OnRegisterResponse rq) rsp st
     = (st, [SendRequest (fst (retryWithDigestAuth sign rq rsp CbNoop)) (Some (OnAuthResponse CbNoop))])
   \<and> deliver sign (OnAuthResponse CbNoop) rsp' st = (st, [])"
  by (simp add: handleRegisterResponse_def retryWithDigestAuth_def Let_def)

lemma invite_retry_on_each_challenge:
  assumes "inviteRequest st = Some rq" and "is_auth_challenge rsp"
  shows "\<exists>rq'. handleInviteResponse sign rsp st
           = (st\<lparr>inviteRequest := Some rq'\<rparr>,
              [SendRequest rq' (Some (OnAuthResponse CbHandleInviteResponse))])
         \<and> req_cseq rq' = req_cseq rq + 1 \<and> req_method rq' = req_method rq
         \<and> req_call_id rq' = req_call_id rq"
  using assms by (simp add: handleInviteResponse_def retryWithDigestAuth_def Let_def)

text \<open>
  C3, at a server that answers the INVITE and its signed retry with 401 and a challenge
  each: the first challenge is answered by a retry with sequence number 2, the original
  number plus 1, and the second challenge, handed to the continuation of that retry, is
  answered by another retry, with sequence number 3. The same INVITE has then been
  retried twice.
\<close>

theorem C3_invite_retried_twice:
  "sip_initiateCall env 1 ''call-1'' sip_initial
     = (sip_initial\<lparr>initiatingCall := True, inviteRequest := Some
          \<lparr>req_method = ''INVITE'', req_call_id = ''call-1'', req_cseq = 1,
           req_authorization = None, req_content = buildLocalSdp env 1\<rparr>\<rparr>,
        [SendRequest \<lparr>req_method = ''INVITE'', req_call_id = ''call-1'', req_cseq = 1,
           req_authorization = None, req_content = buildLocalSdp env 1\<rparr> (Some OnInviteResponse)])
   \<and> deliver (\<lambda>ch rq. ch) OnInviteResponse
       \<lparr>rsp_status = 401, rsp_reason = ''Unauthorized'', rsp_call_id = ''call-1'', rsp_cseq = 1,
        rsp_www_authenticate = Some ''nonce-a'', rsp_content_type = None, rsp_content = []\<rparr>
       (sip_initial\<lparr>initiatingCall := True, inviteRequest := Some
          \<lparr>req_method = ''INVITE'', req_call_id = ''call-1'', req_cseq = 1,
           req_authorization = None, req_content = buildLocalSdp env 1\<rparr>\<rparr>)
     = (sip_initial\<lparr>initiatingCall := True, inviteRequest := Some
          \<lparr>req_method = ''INVITE'', req_call_id = ''call-1'', req_cseq = 2,
           req_authorization = Some ''nonce-a'', req_content = buildLocalSdp env 1\<rparr>\<rparr>,
        [SendRequest \<lparr>req_method = ''INVITE'', req_call_id = ''call-1'', req_cseq = 2,
           req_authorization = Some ''nonce-a'', req_content = buildLocalSdp env 1\<rparr>
           (Some (OnAuthResponse CbHandleInviteResponse))])
   \<and> deliver (\<lambda>ch rq. ch) (OnAuthResponse CbHandleInviteResponse)
       \<lparr>rsp_status = 401, rsp_reason = ''Unauthorized'', rsp_call_id = ''call-1'', rsp_cseq = 2,
        rsp_www_authenticate = Some ''nonce-b'', rsp_content_type = None, rsp_content = []\<rparr>
       (sip_initial\<lparr>initiatingCall := True, inviteRequest := Some
          \<lparr>req_method = ''INVITE'', req_call_id = ''call-1'', req_cseq = 2,
           req_authorization = Some ''nonce-a'', req_content = buildLocalSdp env 1\<rparr>\<rparr>)
     = (sip_initial\<lparr>initiatingCall := True, inviteRequest := Some
          \<lparr>req_method = ''INVITE'', req_call_id = ''call-1'', req_cseq = 3,
           req_authorization = Some ''nonce-b'', req_content = buildLocalSdp env 1\<rparr>\<rparr>,
        [SendRequest \<lparr>req_method = ''INVITE'', req_call_id = ''call-1'', req_cseq = 3,
           req_authorization = Some ''nonce-b'', req_content = buildLocalSdp env 1\<rparr>
           (Some (OnAuthResponse CbHandleInviteResponse))])"
  by (simp add: sip_initiateCall_def sip_initial_def handleInviteResponse_def
      is_auth_challenge_def retryWithDigestAuth_def Let_def)

subsection \<open>Splitting, trimming and matching\<close>

lemma split_on_no_sep: "c \<notin> set a \<Longrightarrow> split_on c a = [a]"
  by (induction a) auto

lemma split_on_append: "c \<notin> set a \<Longrightarrow> split_on c (a @ c # b) = a # split_on c b"
  by (induction a) auto

lemma first_some_top: "f (Suc n) = Some r \<Longrightarrow> first_some f (Suc n) = Some r"
  by simp

lemma takeWhile_run:
  "\<forall>c\<in>set run. P c \<Longrightarrow> s = [] \<or> \<not> P (hd s) \<Longrightarrow> takeWhile P (run @ s) = run"
  by (cases s) (auto simp: takeWhile_append2 intro: takeWhile_eq_all_conv[THEN iffD2])

lemma match_lits: "match_here (lits p @ re) (p @ s) caps = match_here re s caps"
  by (induction p) (simp_all add: lits_def)

lemma match_plus:
  assumes "run \<noteq> []" and "\<forall>c\<in>set run. in_cls k c" and "s = [] \<or> \<not> in_cls k (hd s)"
    and "match_here re s caps = Some r"
  shows "match_here (Plus k # re) (run @ s) caps = Some r"
proof -
  have tw: "takeWhile (in_cls k) (run @ s) = run"
    using assms(2,3) by (rule takeWhile_run)
  obtain n where n: "length run = Suc n"
    using assms(1) by (cases run) auto
  show ?thesis
    using assms(4) by (simp add: tw n [symmetric] del: first_some.simps) (simp add: n)
qed

lemma match_cap:
  assumes "run \<noteq> []" and "\<forall>c\<in>set run. in_cls k c" and "s = [] \<or> \<not> in_cls k (hd s)"
    and "match_here re s (caps @ [run]) = Some r"
  shows "match_here (Cap k # re) (run @ s) caps = Some r"
proof -
  have tw: "takeWhile (in_cls k) (run @ s) = run"
    using assms(2,3) by (rule takeWhile_run)
  obtain n where n: "length run = Suc n"
    using assms(1) by (cases run) auto
  show ?thesis
    using assms(4) by (simp add: tw n [symmetric] del: first_some.simps) (simp add: n)
qed

lemma re_search_here: "match_here re s [] = Some r \<Longrightarrow> re_search re s = Some r"
  by (cases s) simp_all

lemma digit_not_space: "is_digit c \<Longrightarrow> \<not> is_space c"
  by (auto simp: is_digit_def is_space_def)

lemma digit_not_sign: "is_digit c \<Longrightarrow> c \<noteq> CHR ''-'' \<and> c \<noteq> CHR ''+''"
  by (auto simp: is_digit_def)

lemma parseInt10_numeral:
  assumes "ds \<noteq> []" and "\<forall>c\<in>set ds. is_digit c"
  shows "parseInt10 ds = to_double (digits_val ds)"
proof -
  obtain d rest where ds: "ds = d # rest" using assms(1) by (cases ds) auto
  have d: "is_digit d" using assms(2) ds by simp
  have tw: "takeWhile is_digit ds = ds" using assms(2) by (simp add: takeWhile_eq_all_conv)
  show ?thesis
    using digit_not_space [OF d] digit_not_sign [OF d] tw
    by (simp add: parseInt10_def ds Let_def)
qed

lemma digit_val_nonneg: "0 \<le> digit_val c"
  by (simp add: digit_val_def)

lemma foldl_digits_nonneg: "0 \<le> acc \<Longrightarrow> 0 \<le> foldl (\<lambda>acc d. acc * 10 + digit_val d) acc ds"
  by (induction ds arbitrary: acc) (simp_all add: digit_val_nonneg)

lemma digits_val_nonneg: "0 \<le> digits_val ds"
  by (simp add: digits_val_def foldl_digits_nonneg)

lemma to_double_exact: "0 \<le> i \<Longrightarrow> i < 9007199254740992 \<Longrightarrow> to_double i = Num i"
  by (simp add: to_double_def)

lemma to_double_not_NaN: "to_double i \<noteq> NaN"
  by (simp add: to_double_def split: option.splits)

lemma parseInt10_digits:
  assumes "ds \<noteq> []" and "\<forall>c\<in>set ds. is_digit c" and "digits_val ds < 9007199254740992"
  shows "parseInt10 ds = Num (digits_val ds)"
  using assms by (simp add: parseInt10_numeral to_double_exact digits_val_nonneg)

lemma trim_keep:
  assumes "s \<noteq> []" and "\<not> is_space (hd s)" and "\<not> is_space (last s)"
    and "\<forall>c\<in>set ws. is_space c"
  shows "trim (s @ ws) = s"
proof -
  obtain x xs where s: "s = x # xs" using assms(1) by (cases s) auto
  have front: "dropWhile is_space (s @ ws) = s @ ws"
    using assms(2) s by simp
  have "rev (s @ ws) = rev ws @ rev s" by simp
  moreover have "dropWhile is_space (rev ws @ rev s) = dropWhile is_space (rev s)"
    using assms(4) by (simp add: dropWhile_append)
  moreover have "dropWhile is_space (rev s) = rev s"
    using assms(1,3) by (cases "rev s") (auto simp: last_rev hd_rev dest: arg_cong[where f=hd])
  ultimately show ?thesis by (simp add: trim_def front)
qed

lemma c_line_match:
  assumes "ws \<noteq> []" and "\<forall>c\<in>set ws. is_space c"
    and "addr \<noteq> []" and "\<forall>c\<in>set addr. \<not> is_space c"
    and "rest = [] \<or> is_space (hd rest)"
  shows "re_search re_c_line (''c=IN IP4'' @ ws @ addr @ rest) = Some [addr]"
proof -
  have e1: "match_here [Cap NonSpace] (addr @ rest) [] = Some [addr]"
    using assms(3,4,5) by (intro match_cap) auto
  have e2: "match_here [Plus Space, Cap NonSpace] (ws @ addr @ rest) [] = Some [addr]"
    using assms(1,2,3,4) e1 by (intro match_plus) (auto simp: hd_append)
  have "match_here (lits ''c=IN IP4'' @ [Plus Space, Cap NonSpace])
          (''c=IN IP4'' @ ws @ addr @ rest) [] = Some [addr]"
    using e2 by (simp only: match_lits)
  then show ?thesis
    unfolding re_c_line_def by (rule re_search_here)
qed

lemma m_audio_match:
  assumes "portd \<noteq> []" and "\<forall>c\<in>set portd. is_digit c"
    and "pts \<noteq> []" and "\<not> is_space (hd pts)" and "\<forall>c\<in>set pts. \<not> is_line_terminator c"
  shows "re_search re_m_audio (''m=audio '' @ portd @ '' RTP/AVP '' @ pts) = Some [portd, pts]"
proof -
  let ?tail = "[Plus NonSpace, Plus Space, Cap AnyChar]"
  have sp_ne: "'' '' \<noteq> []" by simp
  have sp: "\<forall>c\<in>set '' ''. in_cls Space c" by (simp add: is_space_def)
  have avp_ne: "''AVP'' \<noteq> []" by simp
  have avp: "\<forall>c\<in>set ''AVP''. in_cls NonSpace c" by (simp add: is_space_def)
  have any: "\<forall>c\<in>set pts. in_cls AnyChar c" using assms(5) by simp
  have dig: "\<forall>c\<in>set portd. in_cls Digit c" using assms(2) by simp
  have b0: "[] = [] \<or> \<not> in_cls AnyChar (hd [])" by simp
  have b1: "pts = [] \<or> \<not> in_cls Space (hd pts)" using assms(4) by simp
  have b2: "'' '' @ pts = [] \<or> \<not> in_cls NonSpace (hd ('' '' @ pts))"
    by (simp add: is_space_def)
  have b3: "''RTP/'' @ ''AVP'' @ '' '' @ pts = []
            \<or> \<not> in_cls Space (hd (''RTP/'' @ ''AVP'' @ '' '' @ pts))"
    by (simp add: is_space_def)
  have b4: "'' '' @ ''RTP/'' @ ''AVP'' @ '' '' @ pts = []
            \<or> \<not> in_cls Digit (hd ('' '' @ ''RTP/'' @ ''AVP'' @ '' '' @ pts))"
    by (simp add: is_digit_def)
  have b5: "portd @ '' '' @ ''RTP/'' @ ''AVP'' @ '' '' @ pts = []
            \<or> \<not> in_cls Space (hd (portd @ '' '' @ ''RTP/'' @ ''AVP'' @ '' '' @ pts))"
    using assms(1,2) by (cases portd) (simp_all add: digit_not_space)
  have e0: "match_here [] [] ([portd] @ [pts]) = Some [portd, pts]" by simp
  have e1: "match_here [Cap AnyChar] (pts @ []) [portd] = Some [portd, pts]"
    by (rule match_cap [OF assms(3) any b0 e0])
  then have e1': "match_here [Cap AnyChar] pts [portd] = Some [portd, pts]" by simp
  have e2: "match_here [Plus Space, Cap AnyChar] ('' '' @ pts) [portd] = Some [portd, pts]"
    by (rule match_plus [OF sp_ne sp b1 e1'])
  have e3: "match_here ?tail (''AVP'' @ '' '' @ pts) [portd] = Some [portd, pts]"
    by (rule match_plus [OF avp_ne avp b2 e2])
  have e4: "match_here (lits ''RTP/'' @ ?tail) (''RTP/'' @ ''AVP'' @ '' '' @ pts) [portd]
            = Some [portd, pts]"
    using e3 by (simp only: match_lits)
  have e5: "match_here (Plus Space # lits ''RTP/'' @ ?tail)
              ('' '' @ ''RTP/'' @ ''AVP'' @ '' '' @ pts) [portd] = Some [portd, pts]"
    by (rule match_plus [OF sp_ne sp b3 e4])
  then have e5': "match_here (Plus Space # lits ''RTP/'' @ ?tail)
              ('' '' @ ''RTP/'' @ ''AVP'' @ '' '' @ pts) ([] @ [portd]) = Some [portd, pts]"
    by (simp only: append_Nil)
  have e6: "match_here (Cap Digit # Plus Space # lits ''RTP/'' @ ?tail)
              (portd @ '' '' @ ''RTP/'' @ ''AVP'' @ '' '' @ pts) [] = Some [portd, pts]"
    by (rule match_cap [OF assms(1) dig b4 e5'])
  have e7: "match_here (Plus Space # Cap Digit # Plus Space # lits ''RTP/'' @ ?tail)
              ('' '' @ portd @ '' '' @ ''RTP/'' @ ''AVP'' @ '' '' @ pts) [] = Some [portd, pts]"
    by (rule match_plus [OF sp_ne sp b5 e6])
  have e8: "match_here (lits ''m=audio'' @ Plus Space # Cap Digit # Plus Space # lits ''RTP/'' @ ?tail)
              (''m=audio'' @ '' '' @ portd @ '' '' @ ''RTP/'' @ ''AVP'' @ '' '' @ pts) []
            = Some [portd, pts]"
    using e7 by (simp only: match_lits)
  have "match_here re_m_audio (''m=audio '' @ portd @ '' RTP/AVP '' @ pts) [] = Some [portd, pts]"
    using e8 by (simp add: re_m_audio_def)
  then show ?thesis by (rule re_search_here)
qed

lemma rtpmap_match:
  assumes "ptd \<noteq> []" and "\<forall>c\<in>set ptd. is_digit c"
  shows "re_search re_rtpmap (''a=rtpmap:'' @ ptd @ '' OPUS/'' @ rest) = Some [ptd, ''OPUS'']"
proof -
  have sp_ne: "'' '' \<noteq> []" by simp
  have sp: "\<forall>c\<in>set '' ''. in_cls Space c" by (simp add: is_space_def)
  have opus_ne: "''OPUS'' \<noteq> []" by simp
  have opus: "\<forall>c\<in>set ''OPUS''. in_cls WordDash c" by (simp add: is_word_def)
  have dig: "\<forall>c\<in>set ptd. in_cls Digit c" using assms(2) by simp
  have b1: "''/'' @ rest = [] \<or> \<not> in_cls WordDash (hd (''/'' @ rest))"
    by (simp add: is_word_def)
  have b2: "''OPUS'' @ ''/'' @ rest = [] \<or> \<not> in_cls Space (hd (''OPUS'' @ ''/'' @ rest))"
    by (simp add: is_space_def)
  have b3: "'' '' @ ''OPUS'' @ ''/'' @ rest = []
            \<or> \<not> in_cls Digit (hd ('' '' @ ''OPUS'' @ ''/'' @ rest))"
    by (simp add: is_digit_def)
  have e0: "match_here [] (''/'' @ rest) ([ptd] @ [''OPUS'']) = Some [ptd, ''OPUS'']" by simp
  have e1: "match_here [Cap WordDash] (''OPUS'' @ ''/'' @ rest) [ptd] = Some [ptd, ''OPUS'']"
    by (rule match_cap [OF opus_ne opus b1 e0])
  have e2: "match_here [Plus Space, Cap WordDash] ('' '' @ ''OPUS'' @ ''/'' @ rest) [ptd]
            = Some [ptd, ''OPUS'']"
    by (rule match_plus [OF sp_ne sp b2 e1])
  then have e2': "match_here [Plus Space, Cap WordDash] ('' '' @ ''OPUS'' @ ''/'' @ rest) ([] @ [ptd])
            = Some [ptd, ''OPUS'']"
    by (simp only: append_Nil)
  have e3: "match_here [Cap Digit, Plus Space, Cap WordDash]
              (ptd @ '' '' @ ''OPUS'' @ ''/'' @ rest) [] = Some [ptd, ''OPUS'']"
    by (rule match_cap [OF assms(1) dig b3 e2'])
  have e4: "match_here (lits ''a=rtpmap:'' @ [Cap Digit, Plus Space, Cap WordDash])
              (''a=rtpmap:'' @ ptd @ '' '' @ ''OPUS'' @ ''/'' @ rest) [] = Some [ptd, ''OPUS'']"
    using e3 by (simp only: match_lits)
  have "match_here re_rtpmap (''a=rtpmap:'' @ ptd @ '' OPUS/'' @ rest) [] = Some [ptd, ''OPUS'']"
    using e4 by (simp add: re_rtpmap_def)
  then show ?thesis by (rule re_search_here)
qed

lemma startsWith_append: "startsWith (p @ s) p"
  by (simp add: startsWith_def)

lemma upper_OPUS: "toUpperCase ''OPUS'' = ''OPUS''"
  by (simp add: toUpperCase_def upper_char_def)

lemma rtpmap_step_opus_line:
  assumes "ptd \<noteq> []" and "\<forall>c\<in>set ptd. is_digit c" and "parseInt10 ptd \<in> set payloadTypes"
  shows "rtpmap_step ''OPUS'' payloadTypes found (''a=rtpmap:'' @ ptd @ '' OPUS/'' @ rest)
         = Some (parseInt10 ptd)"
  using assms
  by (simp add: rtpmap_step_def startsWith_append rtpmap_match upper_OPUS
      startsWith_def del: append.simps)

lemma split_on_not_Nil: "split_on c s \<noteq> []"
  by (cases s) (auto split: list.splits)

lemma split_on_hd: "hd (split_on c s) = takeWhile (\<lambda>x. x \<noteq> c) s"
  by (induction s) (auto simp: split_on_not_Nil split: list.splits)

lemma split_on_chars: "x \<in> set s \<Longrightarrow> x = c \<or> (\<exists>l\<in>set (split_on c s). x \<in> set l)"
  by (induction s) (auto split: list.splits)

lemma numerals_text:
  assumes "\<forall>d\<in>set (split_on CHR '' '' pts). d \<noteq> [] \<and> (\<forall>c\<in>set d. is_digit c)"
  shows "pts \<noteq> [] \<and> \<not> is_space (hd pts) \<and> (\<forall>c\<in>set pts. \<not> is_line_terminator c)"
proof -
  let ?h = "takeWhile (\<lambda>x. x \<noteq> CHR '' '') pts"
  have "hd (split_on CHR '' '' pts) \<in> set (split_on CHR '' '' pts)"
    using split_on_not_Nil by simp
  then have h: "?h \<noteq> []" "\<forall>c\<in>set ?h. is_digit c"
    using assms by (auto simp: split_on_hd)
  then have ne: "pts \<noteq> []" by auto
  then have "hd ?h = hd pts" using h(1) by (cases pts) (auto split: if_splits)
  moreover have "hd ?h \<in> set ?h" using h(1) by simp
  ultimately have "is_digit (hd pts)" using h(2) by metis
  then have nsp: "\<not> is_space (hd pts)" by (rule digit_not_space)
  have "\<not> is_line_terminator c" if "c \<in> set pts" for c
  proof -
    from split_on_chars [OF that, of "CHR '' ''"]
    have "c = CHR '' '' \<or> is_digit c" using assms by auto
    then show ?thesis by (auto simp: is_line_terminator_def is_digit_def)
  qed
  with ne nsp show ?thesis by simp
qed

lemma foldl_keep: "\<forall>l\<in>set ls. \<forall>a. step a l = a \<Longrightarrow> foldl step a ls = a"
  by (induction ls arbitrary: a) simp_all

lemma sdp_lines_Nil: "sdp_lines [] = [[]]"
  by (simp add: sdp_lines_def trim_def)

subsection \<open>Parsing a peer's offer\<close>

text \<open>
  C1, as the code has it: let the first line that starts with \<open>m=audio\<close> be
  \<open>m=audio <port> RTP/AVP <pts>\<close>, with \<open><port>\<close> a decimal numeral and
  \<open><pts>\<close> decimal numerals separated by single blanks, and let a line
  \<open>a=rtpmap:<pt> OPUS/...\<close> have a payload type that is among \<open><pts>\<close> and is not
  zero. If no later line overwrites the payload type found (no later line is an
  \<open>a=rtpmap\<close> line for an OPUS codec with a payload type among \<open><pts>\<close>), parsing
  returns an offer whose audio endpoint has payload type \<open><pt>\<close> and port
  \<open><port>\<close>.
\<close>

theorem C1_last_opus_rtpmap_wins:
  assumes maudio: "find (\<lambda>line. startsWith line ''m=audio'') (sdp_lines sdp)
                   = Some (''m=audio '' @ portd @ '' RTP/AVP '' @ pts)"
    and portd: "portd \<noteq> []" "\<forall>c\<in>set portd. is_digit c" "digits_val portd < 9007199254740992"
    and numerals: "\<forall>d\<in>set (split_on CHR '' '' pts). d \<noteq> [] \<and> (\<forall>c\<in>set d. is_digit c)"
    and lines: "sdp_lines sdp = before @ (''a=rtpmap:'' @ ptd @ '' OPUS/'' @ rest) # after"
    and ptd: "ptd \<noteq> []" "\<forall>c\<in>set ptd. is_digit c" "digits_val ptd < 9007199254740992"
    and among: "\<exists>d\<in>set (split_on CHR '' '' pts). digits_val d = digits_val ptd"
    and last: "\<forall>l\<in>set after. \<forall>found.
                 rtpmap_step ''OPUS'' (map parseInt10 (split_on CHR '' '' pts)) found l = found"
    and nonzero: "digits_val ptd \<noteq> 0"
  shows "\<exists>offer a. parseRemoteSdp sdp = Some offer \<and> audio offer = Some a
           \<and> payloadType a = Num (digits_val ptd) \<and> port a = Num (digits_val portd)"
proof -
  let ?pts = "map parseInt10 (split_on CHR '' '' pts)"
  let ?L = "sdp_lines sdp"
  have ne: "sdp \<noteq> []"
    using maudio by (auto simp: sdp_lines_Nil startsWith_def)
  from numerals_text [OF numerals]
  have m: "re_search re_m_audio (''m=audio '' @ portd @ '' RTP/AVP '' @ pts) = Some [portd, pts]"
    using portd(1,2) by (intro m_audio_match) simp_all
  have pt: "parseInt10 ptd = Num (digits_val ptd)"
    using ptd by (rule parseInt10_digits)
  have mem: "parseInt10 ptd \<in> set ?pts"
  proof -
    from among obtain d where d: "d \<in> set (split_on CHR '' '' pts)" "digits_val d = digits_val ptd"
      by auto
    then have "parseInt10 d = parseInt10 ptd"
      using numerals ptd(1,2) by (simp add: parseInt10_numeral)
    moreover have "parseInt10 d \<in> parseInt10 ` set (split_on CHR '' '' pts)"
      using d(1) by (rule imageI)
    ultimately show ?thesis by simp
  qed
  have hit: "rtpmap_step ''OPUS'' ?pts found (''a=rtpmap:'' @ ptd @ '' OPUS/'' @ rest)
             = Some (Num (digits_val ptd))" for found
    using rtpmap_step_opus_line [OF ptd(1,2) mem] by (simp only: pt)
  have fp: "find_payload ''OPUS'' ?pts ?L = Some (Num (digits_val ptd))"
    unfolding find_payload_def lines
    by (simp only: foldl_append foldl_Cons hit foldl_keep [OF last])
  have pa: "parse_audio ?L = Some \<lparr>destination = audio_destination ?L,
              port = Num (digits_val portd), payloadType = Num (digits_val ptd)\<rparr>"
    using nonzero portd
    by (simp add: parse_audio_def maudio m fp parseInt10_digits del: append.simps)
  show ?thesis
    using ne pa by (simp add: parseRemoteSdp_def Let_def)
qed

theorem C1_last_opus_rtpmap_wins_witness:
  "sdp_lines (''v=0'' @ [CR, LF] @ ''m=audio 5004 RTP/AVP 96 111'' @ [CR, LF]
       @ ''a=rtpmap:96 OPUS/48000/2'' @ [CR, LF] @ ''a=rtpmap:111 OPUS/48000/2'' @ [CR, LF])
     = [''v=0'', ''m=audio 5004 RTP/AVP 96 111'', ''a=rtpmap:96 OPUS/48000/2'',
        ''a=rtpmap:111 OPUS/48000/2'', []]
   \<and> (\<exists>offer a. parseRemoteSdp (''v=0'' @ [CR, LF] @ ''m=audio 5004 RTP/AVP 96 111'' @ [CR, LF]
            @ ''a=rtpmap:96 OPUS/48000/2'' @ [CR, LF] @ ''a=rtpmap:111 OPUS/48000/2'' @ [CR, LF])
          = Some offer
        \<and> audio offer = Some a \<and> payloadType a = Num 111 \<and> port a = Num 5004)"
proof -
  let ?sdp = "''v=0'' @ [CR, LF] @ ''m=audio 5004 RTP/AVP 96 111'' @ [CR, LF]
       @ ''a=rtpmap:96 OPUS/48000/2'' @ [CR, LF] @ ''a=rtpmap:111 OPUS/48000/2'' @ [CR, LF]"
  have ls: "sdp_lines ?sdp = [''v=0'', ''m=audio 5004 RTP/AVP 96 111'', ''a=rtpmap:96 OPUS/48000/2'',
        ''a=rtpmap:111 OPUS/48000/2'', []]"
    by code_simp
  have h1: "find (\<lambda>line. startsWith line ''m=audio'') (sdp_lines ?sdp)
            = Some (''m=audio '' @ ''5004'' @ '' RTP/AVP '' @ ''96 111'')"
    by code_simp
  have h2: "''5004'' \<noteq> []" by simp
  have h3: "\<forall>c\<in>set ''5004''. is_digit c" by code_simp
  have h3': "digits_val ''5004'' < 9007199254740992" by code_simp
  have h4: "\<forall>d\<in>set (split_on CHR '' '' ''96 111''). d \<noteq> [] \<and> (\<forall>c\<in>set d. is_digit c)"
    by code_simp
  have h5: "sdp_lines ?sdp = [''v=0'', ''m=audio 5004 RTP/AVP 96 111'', ''a=rtpmap:96 OPUS/48000/2'']
              @ (''a=rtpmap:'' @ ''111'' @ '' OPUS/'' @ ''48000/2'') # [[]]"
    by code_simp
  have h6: "''111'' \<noteq> []" by simp
  have h7: "\<forall>c\<in>set ''111''. is_digit c" by code_simp
  have h7': "digits_val ''111'' < 9007199254740992" by code_simp
  have h8: "\<exists>d\<in>set (split_on CHR '' '' ''96 111''). digits_val d = digits_val ''111''"
    by code_simp
  have h9: "\<forall>l\<in>set [[]]. \<forall>found.
              rtpmap_step ''OPUS'' (map parseInt10 (split_on CHR '' '' ''96 111'')) found l = found"
    by (simp add: rtpmap_step_def startsWith_def)
  have h10: "digits_val ''111'' \<noteq> 0" by code_simp
  have v1: "digits_val ''111'' = 111" by code_simp
  have v2: "digits_val ''5004'' = 5004" by code_simp
  from C1_last_opus_rtpmap_wins [OF h1 h2 h3 h3' h4 h5 h6 h7 h7' h8 h9 h10] ls show ?thesis
    by (simp only: v1 v2)
qed

text \<open>
  The offer above also has the line \<open>a=rtpmap:96 OPUS/48000/2\<close>, and 96 is
  among the payload types of its \<open>m=audio\<close> line; the audio payload type returned is
  111, that of the later OPUS line, not 96.
\<close>

theorem C1_earlier_opus_rtpmap_overwritten:
  "''m=audio 5004 RTP/AVP 96 111'' \<in> set (sdp_lines (''v=0'' @ [CR, LF]
       @ ''m=audio 5004 RTP/AVP 96 111'' @ [CR, LF]
       @ ''a=rtpmap:96 OPUS/48000/2'' @ [CR, LF] @ ''a=rtpmap:111 OPUS/48000/2'' @ [CR, LF]))
   \<and> ''a=rtpmap:96 OPUS/48000/2'' \<in> set (sdp_lines (''v=0'' @ [CR, LF]
       @ ''m=audio 5004 RTP/AVP 96 111'' @ [CR, LF]
       @ ''a=rtpmap:96 OPUS/48000/2'' @ [CR, LF] @ ''a=rtpmap:111 OPUS/48000/2'' @ [CR, LF]))
   \<and> parseRemoteSdp (''v=0'' @ [CR, LF] @ ''m=audio 5004 RTP/AVP 96 111'' @ [CR, LF]
       @ ''a=rtpmap:96 OPUS/48000/2'' @ [CR, LF] @ ''a=rtpmap:111 OPUS/48000/2'' @ [CR, LF])
     = Some \<lparr>audio = Some \<lparr>destination = ''127.0.0.1'', port = Num 5004, payloadType = Num 111\<rparr>,
             video = None\<rparr>
   \<and> Num 111 \<noteq> Num 96"
  by code_simp

text \<open>
  Payload type 0 is outside the statement above: the loop finds it, and the test of the
  variable's truth value then treats it as not found.
\<close>

lemma opus_payload_type_zero_dropped:
  "find_payload ''OPUS'' [Num 0] [''m=audio 5004 RTP/AVP 0'', ''a=rtpmap:0 OPUS/48000/2'']
     = Some (Num 0)
   \<and> parseRemoteSdp (''m=audio 5004 RTP/AVP 0'' @ [CR, LF] @ ''a=rtpmap:0 OPUS/48000/2'' @ [CR, LF])
     = None"
  by code_simp

subsection \<open>The lines of a built offer\<close>

lemma digit_char_digit: "is_digit (digit_char d)"
proof -
  have "nat (d mod 10) < length ''0123456789''" by simp
  then have "''0123456789'' ! nat (d mod 10) \<in> set ''0123456789''" by (rule nth_mem)
  then show ?thesis by (simp only: is_digit_def digit_char_def)
qed

lemma pos_to_string_digits: "pos_to_string n \<noteq> [] \<and> (\<forall>c\<in>set (pos_to_string n). is_digit c)"
proof (induction n rule: pos_to_string.induct)
  case (1 n)
  show ?case
  proof (cases "n < 10")
    case True
    then show ?thesis by (simp add: pos_to_string.simps [of n] digit_char_digit)
  next
    case False
    with 1 show ?thesis by (simp add: pos_to_string.simps [of n] digit_char_digit)
  qed
qed

lemma int_to_string_no_space:
  "int_to_string i \<noteq> [] \<and> (\<forall>c\<in>set (int_to_string i). \<not> is_space c)"
proof -
  have d: "\<forall>c\<in>set (pos_to_string n). \<not> is_space c" for n
    using pos_to_string_digits [of n] digit_not_space by blast
  have m: "\<not> is_space CHR ''-''" by (simp add: is_space_def)
  show ?thesis
    using d m pos_to_string_digits by (simp add: int_to_string_def)
qed

lemma num_to_string_no_space:
  "num_to_string p \<noteq> [] \<and> (\<forall>c\<in>set (num_to_string p). \<not> is_space c)"
proof (cases p)
  case (Num i)
  then show ?thesis using int_to_string_no_space [of i] by simp
qed (simp_all add: is_space_def)

lemma LF_space: "is_space LF"
  by (simp add: is_space_def LF_def)

lemma CR_space: "is_space CR"
  by (simp add: is_space_def CR_def)

lemma trim_Nil: "trim [] = []"
  by (simp add: trim_def)

lemma join_crlf_end:
  "ls \<noteq> [] \<Longrightarrow> join_crlf ls @ [CR, LF] = concat (map (\<lambda>l. l @ [CR, LF]) ls)"
  by (cases ls rule: rev_cases) (simp_all add: join_crlf_def)

lemma sdp_lines_crlf:
  "\<forall>l\<in>set ls. l \<noteq> [] \<and> \<not> is_space (hd l) \<and> \<not> is_space (last l) \<and> LF \<notin> set l
   \<Longrightarrow> sdp_lines (concat (map (\<lambda>l. l @ [CR, LF]) ls)) = ls @ [[]]"
proof (induction ls)
  case Nil
  then show ?case by (simp add: sdp_lines_def trim_Nil)
next
  case (Cons l ls)
  let ?rest = "concat (map (\<lambda>l. l @ [CR, LF]) ls)"
  have l: "l \<noteq> []" "\<not> is_space (hd l)" "\<not> is_space (last l)" "LF \<notin> set l"
    using Cons.prems by simp_all
  have nolf: "LF \<notin> set (l @ [CR])" using l(4) by (simp add: LF_def CR_def)
  have shape: "concat (map (\<lambda>l. l @ [CR, LF]) (l # ls)) = (l @ [CR]) @ LF # ?rest"
    by simp
  have sp: "split_on LF ((l @ [CR]) @ LF # ?rest) = (l @ [CR]) # split_on LF ?rest"
    using nolf by (rule split_on_append)
  have cr: "\<forall>c\<in>set [CR]. is_space c" by (simp add: CR_space)
  have tr: "trim (l @ [CR]) = l"
    using l(1,2,3) cr by (rule trim_keep)
  have ih: "map trim (split_on LF ?rest) = ls @ [[]]"
    using Cons.IH Cons.prems by (simp add: sdp_lines_def)
  show ?case
    unfolding sdp_lines_def shape sp by (simp only: list.map tr ih append_Cons)
qed

lemma no_space_no_LF: "\<forall>c\<in>set s. \<not> is_space c \<Longrightarrow> LF \<notin> set s"
  using LF_space by blast

lemma no_space_last: "s \<noteq> [] \<Longrightarrow> \<forall>c\<in>set s. \<not> is_space c \<Longrightarrow> \<not> is_space (last s)"
  by simp

lemma sdp_lines_built:
  assumes "LOCAL_IP env \<noteq> []" and "\<forall>c\<in>set (LOCAL_IP env). \<not> is_space c"
  shows "sdp_lines (buildLocalSdp env sessionId) = localSdpLines env sessionId @ [[]]"
proof -
  let ?ip = "LOCAL_IP env"
  let ?sid = "int_to_string sessionId"
  let ?vp = "num_to_string (LOCAL_VIDEO_PORT env)"
  have ip: "LF \<notin> set ?ip" "\<not> is_space (last ?ip)"
    using assms no_space_no_LF no_space_last by blast+
  have sid: "LF \<notin> set ?sid"
    using int_to_string_no_space no_space_no_LF by blast
  have vp: "LF \<notin> set ?vp"
    using num_to_string_no_space no_space_no_LF by blast
  have ch: "\<not> is_space CHR ''v''" "\<not> is_space CHR ''o''" "\<not> is_space CHR ''s''"
    "\<not> is_space CHR ''c''" "\<not> is_space CHR ''t''" "\<not> is_space CHR ''m''"
    "\<not> is_space CHR ''a''" "\<not> is_space CHR ''0''" "\<not> is_space CHR ''-''"
    "\<not> is_space CHR ''6''" "\<not> is_space CHR ''2''" "\<not> is_space CHR ''9''"
    "\<not> is_space CHR ''f''" "\<not> is_space CHR ''y''" "\<not> is_space CHR ''v''"
    by (simp_all add: is_space_def)
  have clean: "\<forall>l\<in>set (localSdpLines env sessionId).
                 l \<noteq> [] \<and> \<not> is_space (hd l) \<and> \<not> is_space (last l) \<and> LF \<notin> set l"
    using ip sid vp assms(1) by (simp add: localSdpLines_def ch LF_def)
  have "buildLocalSdp env sessionId
        = concat (map (\<lambda>l. l @ [CR, LF]) (localSdpLines env sessionId))"
    unfolding buildLocalSdp_def by (rule join_crlf_end) (simp add: localSdpLines_def)
  then show ?thesis using sdp_lines_crlf [OF clean] by simp
qed

lemma rtpmap_step_other: "\<not> startsWith l ''a=rtpmap:'' \<Longrightarrow> rtpmap_step n p f l = f"
  by (simp add: rtpmap_step_def)

lemma built_find_m_audio:
  "find (\<lambda>line. startsWith line ''m=audio'') (localSdpLines env sessionId @ [[]])
   = Some ''m=audio 8000 RTP/AVP 96''"
  by (simp add: localSdpLines_def startsWith_def)

lemma built_destination:
  assumes "LOCAL_IP env \<noteq> []" and "\<forall>c\<in>set (LOCAL_IP env). \<not> is_space c"
  shows "audio_destination (localSdpLines env sessionId @ [[]]) = LOCAL_IP env"
proof -
  have sp: "'' '' \<noteq> []" "\<forall>c\<in>set '' ''. is_space c" by (simp_all add: is_space_def)
  have e: "[] = [] \<or> is_space (hd [])" by simp
  from c_line_match [OF sp assms e]
  have cm: "re_search re_c_line (''c=IN IP4 '' @ LOCAL_IP env) = Some [LOCAL_IP env]"
    by simp
  have f: "find (\<lambda>line. startsWith line ''c=IN IP4'') (localSdpLines env sessionId @ [[]])
           = Some (''c=IN IP4 '' @ LOCAL_IP env)"
    by (simp add: localSdpLines_def startsWith_def)
  show ?thesis
    unfolding audio_destination_def f by (simp only: cm option.case list.case)
qed

lemma built_find_payload:
  "find_payload ''OPUS'' [Num 96] (localSdpLines env sessionId @ [[]]) = Some (Num 96)"
proof -
  have r96: "rtpmap_step ''OPUS'' [Num 96] None ''a=rtpmap:96 OPUS/48000/2'' = Some (Num 96)"
    by code_simp
  have r99: "rtpmap_step ''OPUS'' [Num 96] (Some (Num 96)) ''a=rtpmap:99 H264/90000''
             = Some (Num 96)"
    by code_simp
  show ?thesis
    by (simp add: find_payload_def localSdpLines_def rtpmap_step_other startsWith_def r96 r99)
qed

text \<open>
  C7: for every session id, and a configured local address that is one token (not empty,
  no white space), parsing the text that \<open>_buildLocalSdp\<close> builds returns an offer
  whose audio endpoint has payload type 96, port 8000 and the local address as its
  connection address.
\<close>

theorem C7_build_parse_roundtrip:
  assumes "LOCAL_IP env \<noteq> []" and "\<forall>c\<in>set (LOCAL_IP env). \<not> is_space c"
  shows "\<exists>offer. parseRemoteSdp (buildLocalSdp env sessionId) = Some offer
           \<and> audio offer = Some \<lparr>destination = LOCAL_IP env, port = Num 8000, payloadType = Num 96\<rparr>"
proof -
  let ?L = "localSdpLines env sessionId @ [[]]"
  have m: "re_search re_m_audio ''m=audio 8000 RTP/AVP 96'' = Some [''8000'', ''96'']"
    by code_simp
  have p: "parseInt10 ''8000'' = Num 8000" by code_simp
  have q: "map parseInt10 (split_on CHR '' '' ''96'') = [Num 96]" by code_simp
  have pa: "parse_audio ?L
            = Some \<lparr>destination = LOCAL_IP env, port = Num 8000, payloadType = Num 96\<rparr>"
    unfolding parse_audio_def built_find_m_audio
    by (simp only: m p q built_find_payload built_destination [OF assms] option.case list.case
        Let_def truthy_num.simps) simp
  have ne: "buildLocalSdp env sessionId \<noteq> []"
    by (simp add: buildLocalSdp_def)
  show ?thesis
    using ne pa by (simp add: parseRemoteSdp_def sdp_lines_built [OF assms] Let_def)
qed

theorem C7_build_parse_roundtrip_witness:
  "LOCAL_IP \<lparr>LOCAL_IP = ''10.0.0.2'', LOCAL_VIDEO_PORT = Num 8002\<rparr> \<noteq> []
   \<and> (\<exists>offer. parseRemoteSdp (buildLocalSdp \<lparr>LOCAL_IP = ''10.0.0.2'', LOCAL_VIDEO_PORT = Num 8002\<rparr>
                   1700000000000) = Some offer
         \<and> audio offer = Some \<lparr>destination = ''10.0.0.2'', port = Num 8000, payloadType = Num 96\<rparr>)"
proof -
  let ?env = "\<lparr>LOCAL_IP = ''10.0.0.2'', LOCAL_VIDEO_PORT = Num 8002\<rparr>"
  have h1: "LOCAL_IP ?env \<noteq> []" by simp
  have h2: "\<forall>c\<in>set (LOCAL_IP ?env). \<not> is_space c" by (simp add: is_space_def)
  from C7_build_parse_roundtrip [OF h1 h2, of 1700000000000] h1 show ?thesis
    by simp
qed

subsection \<open>Connection addresses and failure\<close>

lemma parse_audio_destination:
  "parse_audio ls = Some a \<Longrightarrow> destination a = audio_destination ls"
  by (auto simp: parse_audio_def Let_def split: option.splits list.splits if_splits)

lemma parse_video_destination:
  "parse_video (Some a) ls = Some v \<Longrightarrow> destination v = destination a"
  by (auto simp: parse_video_def Let_def split: option.splits list.splits if_splits)

lemma parseRemoteSdp_Some:
  "parseRemoteSdp sdp = Some offer \<Longrightarrow>
     audio offer = parse_audio (sdp_lines sdp)
     \<and> video offer = parse_video (audio offer) (sdp_lines sdp)
     \<and> (audio offer \<noteq> None \<or> video offer \<noteq> None)"
  by (auto simp: parseRemoteSdp_def Let_def split: if_splits)

lemma parse_audio_Nil_line: "parse_audio [[]] = None"
  by (simp add: parse_audio_def startsWith_def)

lemma parse_video_Nil_line: "parse_video a [[]] = None"
  by (simp add: parse_video_def startsWith_def)

lemma parseRemoteSdp_None:
  "parseRemoteSdp sdp = None \<longleftrightarrow>
     parse_audio (sdp_lines sdp) = None \<and> parse_video None (sdp_lines sdp) = None"
proof (cases "sdp = []")
  case True
  then show ?thesis
    by (simp add: parseRemoteSdp_def sdp_lines_Nil parse_audio_Nil_line parse_video_Nil_line)
next
  case False
  then show ?thesis
    by (auto simp: parseRemoteSdp_def Let_def)
qed

lemma find_None_iff_all: "(\<forall>l\<in>set ls. \<not> P l) \<Longrightarrow> find P ls = None"
  by (simp add: find_None_iff)

lemma audio_destination_default:
  assumes "\<forall>l\<in>set ls. \<not> startsWith l ''c=IN IP4''"
  shows "audio_destination ls = ''127.0.0.1''"
proof -
  have "find (\<lambda>line. startsWith line ''c=IN IP4'') ls = None"
    using assms by (simp add: find_None_iff)
  then show ?thesis by (simp add: audio_destination_def)
qed

lemma audio_destination_c_line:
  assumes "find (\<lambda>line. startsWith line ''c=IN IP4'') ls = Some (''c=IN IP4'' @ ws @ addr @ rest)"
    and "ws \<noteq> []" and "\<forall>c\<in>set ws. is_space c"
    and "addr \<noteq> []" and "\<forall>c\<in>set addr. \<not> is_space c"
    and "rest = [] \<or> is_space (hd rest)"
  shows "audio_destination ls = addr"
  unfolding audio_destination_def assms(1)
  by (simp only: c_line_match [OF assms(2-6)] option.case list.case)

text \<open>
  What the parser does with addresses and with failure: it returns \<open>null\<close> exactly when
  neither an audio nor a video endpoint resolved, and an offer it returns has at least
  one of them. The address of the audio endpoint is the loopback address when no line
  starts with \<open>c=IN IP4\<close>, and is the first token after \<open>c=IN IP4\<close> and white space
  on the first such line. A video endpoint that resolved together with an audio endpoint
  has the audio endpoint's address.
\<close>

lemma resolved_connection_address:
  "(parseRemoteSdp sdp = None \<longleftrightarrow>
      parse_audio (sdp_lines sdp) = None \<and> parse_video None (sdp_lines sdp) = None)
   \<and> (parseRemoteSdp sdp = Some offer \<longrightarrow> audio offer \<noteq> None \<or> video offer \<noteq> None)
   \<and> (parseRemoteSdp sdp = Some offer \<and> audio offer = Some a
        \<and> (\<forall>l\<in>set (sdp_lines sdp). \<not> startsWith l ''c=IN IP4'')
      \<longrightarrow> destination a = ''127.0.0.1'')
   \<and> (parseRemoteSdp sdp = Some offer \<and> audio offer = Some a
        \<and> find (\<lambda>line. startsWith line ''c=IN IP4'') (sdp_lines sdp)
            = Some (''c=IN IP4'' @ ws @ addr @ rest)
        \<and> ws \<noteq> [] \<and> (\<forall>c\<in>set ws. is_space c)
        \<and> addr \<noteq> [] \<and> (\<forall>c\<in>set addr. \<not> is_space c)
        \<and> (rest = [] \<or> is_space (hd rest))
      \<longrightarrow> destination a = addr)
   \<and> (parseRemoteSdp sdp = Some offer \<and> audio offer = Some a \<and> video offer = Some v
      \<longrightarrow> destination v = destination a)"
proof (intro conjI impI)
  show "parseRemoteSdp sdp = None \<longleftrightarrow>
      parse_audio (sdp_lines sdp) = None \<and> parse_video None (sdp_lines sdp) = None"
    by (rule parseRemoteSdp_None)
next
  assume "parseRemoteSdp sdp = Some offer"
  then show "audio offer \<noteq> None \<or> video offer \<noteq> None"
    using parseRemoteSdp_Some by blast
next
  assume h: "parseRemoteSdp sdp = Some offer \<and> audio offer = Some a
        \<and> (\<forall>l\<in>set (sdp_lines sdp). \<not> startsWith l ''c=IN IP4'')"
  then have pa: "parse_audio (sdp_lines sdp) = Some a"
    using parseRemoteSdp_Some [of sdp offer] by simp
  have "audio_destination (sdp_lines sdp) = ''127.0.0.1''"
    using h by (intro audio_destination_default) blast
  then show "destination a = ''127.0.0.1''"
    using parse_audio_destination [OF pa] by simp
next
  assume h: "parseRemoteSdp sdp = Some offer \<and> audio offer = Some a
        \<and> find (\<lambda>line. startsWith line ''c=IN IP4'') (sdp_lines sdp)
            = Some (''c=IN IP4'' @ ws @ addr @ rest)
        \<and> ws \<noteq> [] \<and> (\<forall>c\<in>set ws. is_space c)
        \<and> addr \<noteq> [] \<and> (\<forall>c\<in>set addr. \<not> is_space c)
        \<and> (rest = [] \<or> is_space (hd rest))"
  then have pa: "parse_audio (sdp_lines sdp) = Some a"
    using parseRemoteSdp_Some [of sdp offer] by simp
  have "audio_destination (sdp_lines sdp) = addr"
    using h by (intro audio_destination_c_line) blast+
  then show "destination a = addr"
    using parse_audio_destination [OF pa] by simp
next
  assume h: "parseRemoteSdp sdp = Some offer \<and> audio offer = Some a \<and> video offer = Some v"
  then have "parse_video (Some a) (sdp_lines sdp) = Some v"
    using parseRemoteSdp_Some [of sdp offer] by simp
  then show "destination v = destination a"
    by (rule parse_video_destination)
qed

lemma resolved_connection_address_example:
  "parseRemoteSdp (''c=IN IP4 10.0.0.5'' @ [CR, LF] @ ''m=audio 5004 RTP/AVP 96'' @ [CR, LF]
       @ ''a=rtpmap:96 OPUS/48000/2'' @ [CR, LF] @ ''m=video 5006 RTP/AVP 99'' @ [CR, LF]
       @ ''a=rtpmap:99 H264/90000'' @ [CR, LF])
   = Some \<lparr>audio = Some \<lparr>destination = ''10.0.0.5'', port = Num 5004, payloadType = Num 96\<rparr>,
           video = Some \<lparr>destination = ''10.0.0.5'', port = Num 5006, payloadType = Num 99\<rparr>\<rparr>
   \<and> destination \<lparr>destination = ''10.0.0.5'', port = Num 5006, payloadType = Num 99\<rparr>
     = destination \<lparr>destination = ''10.0.0.5'', port = Num 5004, payloadType = Num 96\<rparr>
   \<and> destination \<lparr>destination = ''10.0.0.5'', port = Num 5004, payloadType = Num 96\<rparr>
     = ''10.0.0.5''"
proof -
  let ?sdp = "''c=IN IP4 10.0.0.5'' @ [CR, LF] @ ''m=audio 5004 RTP/AVP 96'' @ [CR, LF]
       @ ''a=rtpmap:96 OPUS/48000/2'' @ [CR, LF] @ ''m=video 5006 RTP/AVP 99'' @ [CR, LF]
       @ ''a=rtpmap:99 H264/90000'' @ [CR, LF]"
  let ?a = "\<lparr>destination = ''10.0.0.5'', port = Num 5004, payloadType = Num 96\<rparr>"
  let ?v = "\<lparr>destination = ''10.0.0.5'', port = Num 5006, payloadType = Num 99\<rparr>"
  let ?offer = "\<lparr>audio = Some ?a, video = Some ?v\<rparr>"
  have p: "parseRemoteSdp ?sdp = Some ?offer"
    by code_simp
  have f: "find (\<lambda>line. startsWith line ''c=IN IP4'') (sdp_lines ?sdp)
           = Some (''c=IN IP4'' @ '' '' @ ''10.0.0.5'' @ [])"
    by code_simp
  have w: "'' '' \<noteq> [] \<and> (\<forall>c\<in>set '' ''. is_space c)
           \<and> ''10.0.0.5'' \<noteq> [] \<and> (\<forall>c\<in>set ''10.0.0.5''. \<not> is_space c)"
    by code_simp
  have av: "audio ?offer = Some ?a" "video ?offer = Some ?v" by simp_all
  from resolved_connection_address [where sdp = ?sdp and offer = ?offer and a = ?a and v = ?v
      and ws = "'' ''" and addr = "''10.0.0.5''" and rest = "[]"] p f w av
  have "destination ?a = ''10.0.0.5''" and "destination ?v = destination ?a"
    by blast+
  with p show ?thesis by simp
qed

text \<open>
  C8, at an offer with the line \<open>c=IN IP4 10.0.0.5\<close> and a video stream only: the
  video endpoint resolves, and its connection address is the loopback address, not the
  address 10.0.0.5 of the \<open>c=\<close> line that is present.
\<close>

theorem C8_video_only_ignores_c_line:
  "''c=IN IP4 10.0.0.5'' \<in> set (sdp_lines (''v=0'' @ [CR, LF] @ ''c=IN IP4 10.0.0.5'' @ [CR, LF]
       @ ''m=video 5006 RTP/AVP 99'' @ [CR, LF] @ ''a=rtpmap:99 H264/90000'' @ [CR, LF]))
   \<and> parseRemoteSdp (''v=0'' @ [CR, LF] @ ''c=IN IP4 10.0.0.5'' @ [CR, LF]
       @ ''m=video 5006 RTP/AVP 99'' @ [CR, LF] @ ''a=rtpmap:99 H264/90000'' @ [CR, LF])
     = Some \<lparr>audio = None,
             video = Some \<lparr>destination = ''127.0.0.1'', port = Num 5006, payloadType = Num 99\<rparr>\<rparr>
   \<and> ''127.0.0.1'' \<noteq> ''10.0.0.5''"
  by code_simp

theorem C8_video_only_ignores_c_line_witness:
  "map_option video (parseRemoteSdp (''v=0'' @ [CR, LF] @ ''c=IN IP4 10.0.0.5'' @ [CR, LF]
       @ ''m=video 5006 RTP/AVP 99'' @ [CR, LF] @ ''a=rtpmap:99 H264/90000'' @ [CR, LF]))
     = Some (Some \<lparr>destination = ''127.0.0.1'', port = Num 5006, payloadType = Num 99\<rparr>)"
  using C8_video_only_ignores_c_line by simp

text \<open>The same happens when the offer has an audio stream without an OPUS codec.\<close>

lemma video_beside_unusable_audio_ignores_c_line:
  "parseRemoteSdp (''v=0'' @ [CR, LF] @ ''c=IN IP4 10.0.0.5'' @ [CR, LF]
       @ ''m=audio 5004 RTP/AVP 0'' @ [CR, LF] @ ''a=rtpmap:0 PCMU/8000'' @ [CR, LF]
       @ ''m=video 5006 RTP/AVP 99'' @ [CR, LF] @ ''a=rtpmap:99 H264/90000'' @ [CR, LF])
     = Some \<lparr>audio = None,
             video = Some \<lparr>destination = ''127.0.0.1'', port = Num 5006, payloadType = Num 99\<rparr>\<rparr>"
  by code_simp

subsection \<open>Rejecting an offer without OPUS\<close>

lemma foldl_None: "\<forall>l\<in>set ls. step None l = None \<Longrightarrow> foldl step None ls = None"
  by (induction ls) simp_all

lemma parse_audio_no_opus:
  assumes "\<forall>l\<in>set ls. \<forall>ml m1 m2.
             find (\<lambda>line. startsWith line ''m=audio'') ls = Some ml
             \<and> re_search re_m_audio ml = Some [m1, m2]
             \<longrightarrow> rtpmap_step ''OPUS'' (map parseInt10 (split_on CHR '' '' m2)) None l = None"
  shows "parse_audio ls = None"
proof (cases "find (\<lambda>line. startsWith line ''m=audio'') ls")
  case None
  then show ?thesis by (simp add: parse_audio_def)
next
  case (Some ml)
  show ?thesis
  proof (cases "\<exists>m1 m2. re_search re_m_audio ml = Some [m1, m2]")
    case True
    then obtain m1 m2 where m: "re_search re_m_audio ml = Some [m1, m2]" by blast
    have "\<forall>l\<in>set ls. rtpmap_step ''OPUS'' (map parseInt10 (split_on CHR '' '' m2)) None l = None"
      using assms Some m by blast
    then have "find_payload ''OPUS'' (map parseInt10 (split_on CHR '' '' m2)) ls = None"
      unfolding find_payload_def by (rule foldl_None)
    then show ?thesis by (simp add: parse_audio_def Some m)
  next
    case False
    then show ?thesis
      by (auto simp: parse_audio_def Some split: option.splits list.splits)
  qed
qed

text \<open>
  C2, as the code has it: when no call is starting (\<open>initiatingCall\<close> is unset) and no
  line of the INVITE's offer is an \<open>a=rtpmap\<close> line of an OPUS codec with a payload type
  among those of the \<open>m=audio\<close> line (the loop body finds nothing in any line), parsing
  yields no audio endpoint and the handler sends exactly one response, the 488; no 180
  and no 200 is sent.
\<close>

theorem C2_idle_no_opus_rejected:
  assumes idle: "\<not> initiatingCall st"
    and no_opus: "\<forall>l\<in>set (sdp_lines (req_content rq)). \<forall>ml m1 m2.
             find (\<lambda>line. startsWith line ''m=audio'') (sdp_lines (req_content rq)) = Some ml
             \<and> re_search re_m_audio ml = Some [m1, m2]
             \<longrightarrow> rtpmap_step ''OPUS'' (map parseInt10 (split_on CHR '' '' m2)) None l = None"
  shows "(case parseRemoteSdp (req_content rq) of None \<Rightarrow> True | Some info \<Rightarrow> audio info = None)
         \<and> snd (handleInboundInvite env sessionId rq st)
             = [SendResponse (makeResponse rq 488 ''Not Acceptable Here'')]
         \<and> SendResponse (makeResponse rq 180 ''Ringing'')
             \<notin> set (snd (handleInboundInvite env sessionId rq st))
         \<and> (\<forall>r. SendResponse r \<in> set (snd (handleInboundInvite env sessionId' rq st))
                \<longrightarrow> rsp_status r = 488)"
proof -
  have pa: "parse_audio (sdp_lines (req_content rq)) = None"
    using no_opus by (rule parse_audio_no_opus)
  have noaudio: "case parseRemoteSdp (req_content rq) of None \<Rightarrow> True | Some info \<Rightarrow> audio info = None"
  proof (cases "parseRemoteSdp (req_content rq)")
    case None
    then show ?thesis by simp
  next
    case (Some info)
    then show ?thesis using pa parseRemoteSdp_Some [OF Some] by simp
  qed
  have eff: "snd (handleInboundInvite env s rq st)
             = [SendResponse (makeResponse rq 488 ''Not Acceptable Here'')]" for s
  proof (cases "parseRemoteSdp (req_content rq)")
    case None
    then show ?thesis using idle by (simp add: handleInboundInvite_def)
  next
    case (Some info)
    then have "audio info = None" using noaudio by simp
    then show ?thesis using idle Some by (simp add: handleInboundInvite_def)
  qed
  show ?thesis
    using noaudio eff by (simp add: makeResponse_def)
qed

theorem C2_idle_no_opus_rejected_witness:
  "\<not> initiatingCall sip_initial
   \<and> parseRemoteSdp (''v=0'' @ [CR, LF] @ ''m=audio 5004 RTP/AVP 0 8'' @ [CR, LF]
        @ ''a=rtpmap:0 PCMU/8000'' @ [CR, LF] @ ''a=rtpmap:8 PCMA/8000'' @ [CR, LF]
        @ ''a=rtpmap:111 OPUS/48000/2'' @ [CR, LF]) = None
   \<and> snd (handleInboundInvite \<lparr>LOCAL_IP = ''10.0.0.2'', LOCAL_VIDEO_PORT = Num 8002\<rparr> 1
        \<lparr>req_method = ''INVITE'', req_call_id = ''call-1'', req_cseq = 1, req_authorization = None,
         req_content = ''v=0'' @ [CR, LF] @ ''m=audio 5004 RTP/AVP 0 8'' @ [CR, LF]
           @ ''a=rtpmap:0 PCMU/8000'' @ [CR, LF] @ ''a=rtpmap:8 PCMA/8000'' @ [CR, LF]
           @ ''a=rtpmap:111 OPUS/48000/2'' @ [CR, LF]\<rparr> sip_initial)
     = [SendResponse \<lparr>rsp_status = 488, rsp_reason = ''Not Acceptable Here'',
          rsp_call_id = ''call-1'', rsp_cseq = 1, rsp_www_authenticate = None,
          rsp_content_type = None, rsp_content = []\<rparr>]"
proof -
  let ?c = "''v=0'' @ [CR, LF] @ ''m=audio 5004 RTP/AVP 0 8'' @ [CR, LF]
        @ ''a=rtpmap:0 PCMU/8000'' @ [CR, LF] @ ''a=rtpmap:8 PCMA/8000'' @ [CR, LF]
        @ ''a=rtpmap:111 OPUS/48000/2'' @ [CR, LF]"
  let ?ls = "[''v=0'', ''m=audio 5004 RTP/AVP 0 8'', ''a=rtpmap:0 PCMU/8000'',
              ''a=rtpmap:8 PCMA/8000'', ''a=rtpmap:111 OPUS/48000/2'', []]"
  let ?rq = "\<lparr>req_method = ''INVITE'', req_call_id = ''call-1'', req_cseq = 1,
              req_authorization = None, req_content = ?c\<rparr>"
  have ls: "sdp_lines ?c = ?ls" by code_simp
  have f: "find (\<lambda>line. startsWith line ''m=audio'') ?ls = Some ''m=audio 5004 RTP/AVP 0 8''"
    by code_simp
  have m: "re_search re_m_audio ''m=audio 5004 RTP/AVP 0 8'' = Some [''5004'', ''0 8'']"
    by code_simp
  have pts: "map parseInt10 (split_on CHR '' '' ''0 8'') = [Num 0, Num 8]" by code_simp
  have each: "\<forall>l\<in>set ?ls. rtpmap_step ''OPUS'' [Num 0, Num 8] None l = None"
    by code_simp
  have idle: "\<not> initiatingCall sip_initial" by (simp add: sip_initial_def)
  have no_opus: "\<forall>l\<in>set (sdp_lines (req_content ?rq)). \<forall>ml m1 m2.
             find (\<lambda>line. startsWith line ''m=audio'') (sdp_lines (req_content ?rq)) = Some ml
             \<and> re_search re_m_audio ml = Some [m1, m2]
             \<longrightarrow> rtpmap_step ''OPUS'' (map parseInt10 (split_on CHR '' '' m2)) None l = None"
  proof (intro ballI allI impI)
    fix l ml m1 m2
    assume l: "l \<in> set (sdp_lines (req_content ?rq))"
      and h: "find (\<lambda>line. startsWith line ''m=audio'') (sdp_lines (req_content ?rq)) = Some ml
              \<and> re_search re_m_audio ml = Some [m1, m2]"
    have l': "l \<in> set ?ls" using l by (simp only: sip_request.simps ls)
    have "ml = ''m=audio 5004 RTP/AVP 0 8''"
      using h by (simp only: sip_request.simps ls f) simp
    then have "m2 = ''0 8''" using h m by simp
    then show "rtpmap_step ''OPUS'' (map parseInt10 (split_on CHR '' '' m2)) None l = None"
      using each l' by (simp only: pts)
  qed
  have np: "parseRemoteSdp ?c = None" by code_simp
  from C2_idle_no_opus_rejected [OF idle no_opus,
      of "\<lparr>LOCAL_IP = ''10.0.0.2'', LOCAL_VIDEO_PORT = Num 8002\<rparr>" 1] idle np
  show ?thesis by (simp add: makeResponse_def)
qed

text \<open>
  An INVITE whose offer has no OPUS codec at all, arriving while \<open>initiatingCall\<close> is
  set: the handler returns at once, and no 488 is sent.
\<close>

theorem C2_guarded_invite_gets_no_response:
  "parseRemoteSdp (''v=0'' @ [CR, LF] @ ''m=audio 5004 RTP/AVP 0 8'' @ [CR, LF]
        @ ''a=rtpmap:0 PCMU/8000'' @ [CR, LF] @ ''a=rtpmap:8 PCMA/8000'' @ [CR, LF]) = None
   \<and> handleInboundInvite \<lparr>LOCAL_IP = ''10.0.0.2'', LOCAL_VIDEO_PORT = Num 8002\<rparr> 2
        \<lparr>req_method = ''INVITE'', req_call_id = ''call-2'', req_cseq = 1, req_authorization = None,
         req_content = ''v=0'' @ [CR, LF] @ ''m=audio 5004 RTP/AVP 0 8'' @ [CR, LF]
           @ ''a=rtpmap:0 PCMU/8000'' @ [CR, LF] @ ''a=rtpmap:8 PCMA/8000'' @ [CR, LF]\<rparr>
        (sip_initial\<lparr>initiatingCall := True\<rparr>)
     = (sip_initial\<lparr>initiatingCall := True\<rparr>, [])"
proof -
  have "parseRemoteSdp (''v=0'' @ [CR, LF] @ ''m=audio 5004 RTP/AVP 0 8'' @ [CR, LF]
        @ ''a=rtpmap:0 PCMU/8000'' @ [CR, LF] @ ''a=rtpmap:8 PCMA/8000'' @ [CR, LF]) = None"
    by code_simp
  then show ?thesis by (simp add: handleInboundInvite_def)
qed

end
